theory Spec2Isabelle
  imports Main "HOL-Library.Word"
begin

unbundle bit_operations_syntax

section \<open>The external flash driver (ExternalFlashBackup.c)\<close>

text \<open>
  A shallow embedding of the driver's module state, of its public entry points
  (\<open>ExternalFlash__Initialize\<close>, \<open>ExternalFlash_Handler\<close>, \<open>ExternalFlash__Read\<close>,
  \<open>ExternalFlash__Write\<close>, \<open>ExternalFlash__GetAllocation\<close>) and of its private helpers
  (\<open>SendReadHeader\<close>, \<open>ReadData\<close>, \<open>SendWriteHeader\<close>, \<open>WriteData\<close>,
  \<open>CommBusEventHandler\<close>, \<open>ExecuteCallBack\<close>).

  The module's static variables are the fields of \<open>module_state\<close>; every function takes
  the state and returns the new one. Calls into the collaborators (bus transport, digital
  I/O, timers, scheduler, callback registry) are recorded, in order, in the field
  \<open>calls\<close>; what a collaborator returns is read from the \<open>configuration\<close>.
\<close>

subsection \<open>Machine types and constants\<close>

type_synonym u8 = "8 word"
type_synonym u16 = "16 word"
type_synonym u32 = "32 word"

text \<open>The macros of the source file; a C macro is a text substitution, so each is a numeral
  that takes the type of the expression it stands in.\<close>

abbreviation (input) EXTERNAL_FLASH_PAGE_SIZE :: "'a::numeral" where
  "EXTERNAL_FLASH_PAGE_SIZE \<equiv> 256"

abbreviation (input) EXTERNAL_FLASH_PAGE_NUMBER :: "'a::numeral" where
  "EXTERNAL_FLASH_PAGE_NUMBER \<equiv> 1024"

abbreviation (input) EXTERNAL_FLASH_PAGE_ADDRESS_BYTE :: nat where
  "EXTERNAL_FLASH_PAGE_ADDRESS_BYTE \<equiv> 2"

abbreviation (input) EXTERNAL_FLASH_ADDRESS_SIZE_BYTES :: nat where
  "EXTERNAL_FLASH_ADDRESS_SIZE_BYTES \<equiv> 3"

abbreviation (input) EXTERNAL_FLASH_READ_DUMMY_BYES :: nat where
  "EXTERNAL_FLASH_READ_DUMMY_BYES \<equiv> 1"

abbreviation (input) EXTERNAL_FLASH_WRITE_DUMMY_BYTES :: nat where
  "EXTERNAL_FLASH_WRITE_DUMMY_BYTES \<equiv> 0"

definition EXTERNAL_FLASH_CMD_WRITE_MEMORY :: u8 where
  "EXTERNAL_FLASH_CMD_WRITE_MEMORY = 0x58"

definition EXTERNAL_FLASH_CMD_READ_MEMORY :: u8 where
  "EXTERNAL_FLASH_CMD_READ_MEMORY = 0xd2"

abbreviation (input) EXTERNAL_FLASH_WAIT_TIMEOUT_MS :: nat where
  "EXTERNAL_FLASH_WAIT_TIMEOUT_MS \<equiv> 50"

text \<open>Modelled from the spec: \<open>INVALID_VALUE_8\<close>, \<open>MIN\<close>, \<open>HIBYTE\<close>, \<open>LOBYTE\<close> and
  \<open>COMBINE_BYTES\<close> come from Utilities.h, which is not part of the sources. The spec calls the
  first "the invalid sentinel" of a bus channel handle, and the event value "a packed value
  combining the logical process marker with the byte count", which the event classifier takes
  apart again with \<open>HIBYTE\<close> and \<open>LOBYTE\<close>. They are given their customary meaning: the
  all-ones byte, the conditional expression \<open>a < b ? a : b\<close>, and the high and low byte of a
  16-bit value.\<close>

definition INVALID_VALUE_8 :: u8 where
  "INVALID_VALUE_8 = 0xFF"

definition MIN_macro :: "'a::linorder \<Rightarrow> 'a \<Rightarrow> 'a" where
  "MIN_macro a b = (if a < b then a else b)"

definition HIBYTE :: "u16 \<Rightarrow> u8" where
  "HIBYTE v = ucast (drop_bit 8 v)"

definition LOBYTE :: "u16 \<Rightarrow> u8" where
  "LOBYTE v = ucast v"

definition COMBINE_BYTES :: "u8 \<Rightarrow> u16 \<Rightarrow> u16" where
  "COMBINE_BYTES hi lo = push_bit 8 (ucast hi) OR (lo AND 0xFF)"

subsection \<open>Data model\<close>

datatype EXTERNAL_FLASH_STATE_TYPE =
    EXTERNAL_FLASH_STATE_INITIALIZE
  | EXTERNAL_FLASH_STATE_IDLE
  | EXTERNAL_FLASH_STATE_SEND_READ_HEADER
  | EXTERNAL_FLASH_STATE_WAIT_SEND_READ_HEADER
  | EXTERNAL_FLASH_STATE_READ
  | EXTERNAL_FLASH_STATE_SEND_WRITE_HEADER
  | EXTERNAL_FLASH_STATE_WAIT_SEND_WRITE_HEADER
  | EXTERNAL_FLASH_STATE_WRITE
  | EXTERNAL_FLASH_STATE_SEND_READ_STATUS_REGISTER_COMMAND_BEFORE_READ
  | EXTERNAL_FLASH_STATE_READ_STATUS_REGISTER_BEFORE_READ
  | EXTERNAL_FLASH_STATE_SEND_READ_STATUS_REGISTER_COMMAND_BEFORE_WRITE
  | EXTERNAL_FLASH_STATE_READ_STATUS_REGISTER_BEFORE_WRITE
  | EXTERNAL_FLASH_STATE_INVALID

text \<open>Modelled from the spec: the logical process of an instance is declared in
  ExternalFlash\_prv.h, which is not part of the sources; the spec lists its values as
  \<open>none | wait-read | read | wait-write | write\<close>, and the source names them
  \<open>NVDATA_PROCESS_...\<close>.\<close>

datatype NVDATA_PROCESS_TYPE =
    NVDATA_PROCESS_NONE
  | NVDATA_PROCESS_WAIT_READ
  | NVDATA_PROCESS_READ
  | NVDATA_PROCESS_WAIT_WRITE
  | NVDATA_PROCESS_WRITE

text \<open>Modelled from the spec: \<open>NVMEMORY_INSTANCE_TYPE\<close> is declared in a header that is not
  part of the sources. The fields are the ones the source file reads and writes; their widths
  are those of the parameters assigned to them (\<open>uint32_t data_address\<close>, \<open>uint16_t size\<close>,
  \<open>uint16_t nv_instance_offset\<close>, the 8-bit channel compared with \<open>INVALID_VALUE_8\<close>).
  A pointer is a 32-bit address, \<open>NULL\<close> is 0.\<close>

record NVMEMORY_INSTANCE_TYPE =
  Bus_Instance_Channel :: u8
  NVM_State :: EXTERNAL_FLASH_STATE_TYPE
  NVM_Current_Process :: NVDATA_PROCESS_TYPE
  NVM_Buffer_Pointer :: u32
  NVM_Target_Address :: u32
  NVM_Buffer_Size :: u16
  NVM_Buffer_Progress :: u16
  NVM_Mirror_Pointer :: u32
  NVM_Instance_Memory_Offset :: u16

record EXTERNAL_FLASH_MAP_TYPE =
  ExternalFlash_Channel :: u8
  ExternalFlash_Provider_Bound_Id :: u8
  ExternalFlash_WP_Pin :: u8
  ExternalFlash_WP_Feature :: bool
  ExternalFlash_WP_Level :: bool
  ExternalFlash_Reset_Pin :: u8
  ExternalFlash_Reset_Feature :: bool
  ExternalFlash_Reset_Level :: bool
  Generic_Comm_Bus_Id :: u8

text \<open>The read and the write header have the same two fields and differ in the length of
  the address array (3 address bytes and 1 dummy byte, or 3 address bytes).\<close>

record EXTERNAL_FLASH_HEADER_TYPE =
  ExternalFlash_OpCode_Cmd :: u8
  ExternalFlash_Address :: "u8 list"

text \<open>Modelled from the spec: \<open>COMMON_I_CALLBACK_TYPE\<close> is declared in CommonInterface.h,
  which is not part of the sources; the source file uses these three fields, and copies the
  record into a \<open>CALLBACK_EVENT_TYPE\<close> of the same size.\<close>

record COMMON_I_CALLBACK_TYPE =
  Generic_Provider_Id :: u8
  Source_Instance_Id :: u8
  Event_Value :: u16

text \<open>One entry of \<open>GENERIC_COMM_BUS_HANDLERS\<close>: a function pointer that is \<open>NULL\<close> is
  \<open>None\<close> (or \<open>False\<close> for a handler that returns nothing); a handler that is present
  gives its result as a function of the channel (and the length) it is called with.\<close>

record COMMBUS_HANDLERS =
  GetAllocation :: "(u8 \<Rightarrow> u8) option"
  RegisterEventHandler :: bool
  StartTransaction :: "(u8 \<Rightarrow> bool) option"
  StopTransaction :: bool
  Write :: "(u8 \<Rightarrow> u16 \<Rightarrow> bool) option"
  Read :: "(u8 \<Rightarrow> u16 \<Rightarrow> bool) option"

text \<open>What is fixed when the firmware is built (the configuration map, the handler tables,
  the identity of this provider, the numbering of the process markers) and what the timer
  and scheduler collaborators return.\<close>

record configuration =
  ExternalFlash_Map :: "EXTERNAL_FLASH_MAP_TYPE list"
  GENERIC_COMM_BUS_HANDLERS :: "u8 \<Rightarrow> COMMBUS_HANDLERS"
  GENERIC_NVDATA_EXTERNAL_FLASH :: u8
  NVDATA_PROCESS_marker :: "NVDATA_PROCESS_TYPE \<Rightarrow> u8"
  SystemTimers__AllocateHandle :: u8
  SystemTimers__CreateTask :: u8

text \<open>The number of channels: \<open>EXTERNAL_FLASH_CH_NUM\<close> is declared outside the source
  file; the configuration map is taken to have one entry for each channel, as the loops of the
  source assume when they index the map and the instance store with the same counter. The
  counters are 8-bit in the source and natural numbers here, so the number of channels is
  taken to be below 256.\<close>

definition EXTERNAL_FLASH_CH_NUM :: "configuration \<Rightarrow> nat" where
  "EXTERNAL_FLASH_CH_NUM env = length (ExternalFlash_Map env)"

text \<open>What is handed to the bus in a write: the bytes of a header, or the address of the
  client's buffer.\<close>

datatype bus_data = Header_Bytes "u8 list" | Buffer_At u32

text \<open>The calls into the collaborators.\<close>

datatype external_call =
    Callback__Initialize
  | Call_CreateTask
  | Call_GetAllocation u8 u8
  | DigitalIO_Write u8 bool
  | Call_RegisterEventHandler u8 u8
  | Call_StartTransaction u8 u8
  | Call_StopTransaction u8 u8
  | Call_Write u8 u8 bus_data u16
  | Call_Read u8 u8 u32 u16
  | Call_AllocateHandle
  | SystemTimers__SetMs u8 nat
  | SystemTimers__ReleaseHandle u8
  | SystemTimers__ResumeTask u8
  | SystemTimers__SetTaskIdxNextCall u8
  | Mirror_memcpy u32 u32 u16
  | Callback__Notify COMMON_I_CALLBACK_TYPE u8

record module_state =
  ExternalFlash_Instance_Store :: "NVMEMORY_INSTANCE_TYPE list"
  ExternalFlash_Handler_Index :: u8
  ExternalFlash_Timeout_Handle :: u8
  calls :: "external_call list"

text \<open>A call through a function pointer that is \<open>NULL\<close>.\<close>

datatype fault = Null_Handler_Call

subsection \<open>Helpers of the model\<close>

definition call :: "external_call \<Rightarrow> module_state \<Rightarrow> module_state" where
  "call c s = s\<lparr>calls := calls s @ [c]\<rparr>"

definition update_instance ::
  "nat \<Rightarrow> (NVMEMORY_INSTANCE_TYPE \<Rightarrow> NVMEMORY_INSTANCE_TYPE) \<Rightarrow> module_state \<Rightarrow> module_state" where
  "update_instance i f s =
     s\<lparr>ExternalFlash_Instance_Store :=
         (ExternalFlash_Instance_Store s)[i := f (ExternalFlash_Instance_Store s ! i)]\<rparr>"

definition instance_of :: "module_state \<Rightarrow> nat \<Rightarrow> NVMEMORY_INSTANCE_TYPE" where
  "instance_of s i = ExternalFlash_Instance_Store s ! i"

definition bus_id :: "configuration \<Rightarrow> nat \<Rightarrow> u8" where
  "bus_id env i = Generic_Comm_Bus_Id (ExternalFlash_Map env ! i)"

definition bus :: "configuration \<Rightarrow> nat \<Rightarrow> COMMBUS_HANDLERS" where
  "bus env i = GENERIC_COMM_BUS_HANDLERS env (bus_id env i)"

text \<open>The block that follows every successful bus read or write in the source: allocate and
  start the shared timeout timer unless one is allocated already. \<open>SYS_ASSERT\<close> is declared
  outside the source file; it is taken as a check that does not change the control flow, here
  and in \<open>ExternalFlash__Initialize\<close>.\<close>

definition start_timeout :: "configuration \<Rightarrow> module_state \<Rightarrow> module_state" where
  "start_timeout env s =
     (if ExternalFlash_Timeout_Handle s = INVALID_VALUE_8
      then call (SystemTimers__SetMs (SystemTimers__AllocateHandle env) EXTERNAL_FLASH_WAIT_TIMEOUT_MS)
             ((call Call_AllocateHandle s)
                \<lparr>ExternalFlash_Timeout_Handle := SystemTimers__AllocateHandle env\<rparr>)
      else s)"

text \<open>A write on the bus through the \<open>Write\<close> handler of an instance, as the four sending
  functions do it: nothing when the handler is \<open>NULL\<close>, otherwise the call, and the timeout
  block when it returned \<open>TRUE\<close>.\<close>

definition bus_write ::
  "configuration \<Rightarrow> nat \<Rightarrow> bus_data \<Rightarrow> u16 \<Rightarrow> module_state \<Rightarrow> bool \<times> module_state" where
  "bus_write env i d n s =
     (case Write (bus env i) of
        None \<Rightarrow> (False, s)
      | Some write_handler \<Rightarrow>
          (let s1 = call (Call_Write (bus_id env i) (Bus_Instance_Channel (instance_of s i)) d n) s
           in if write_handler (Bus_Instance_Channel (instance_of s i)) n
              then (True, start_timeout env s1)
              else (False, s1)))"

subsection \<open>Header codec\<close>

text \<open>The two \<open>memcpy\<close> calls of \<open>SendReadHeader\<close> and \<open>SendWriteHeader\<close>: the 8-bit
  \<open>byte_address\<close> goes to address byte 2, the 16-bit \<open>page_address\<close> to address bytes 0 and
  1, low byte first (the target stores integers little-endian).\<close>

definition pack_address :: "u16 \<Rightarrow> u8 \<Rightarrow> u8 list \<Rightarrow> u8 list" where
  "pack_address page_address byte_address a =
     (a[EXTERNAL_FLASH_PAGE_ADDRESS_BYTE := byte_address])
       [0 := ucast page_address, 1 := ucast (drop_bit 8 page_address)]"

definition header_bytes :: "EXTERNAL_FLASH_HEADER_TYPE \<Rightarrow> u8 list" where
  "header_bytes h = ExternalFlash_OpCode_Cmd h # ExternalFlash_Address h"

text \<open>The static header of \<open>SendReadHeader\<close>: zero at start-up; every call writes the
  opcode and the three address bytes, none writes the dummy byte.\<close>

definition read_header :: "u32 \<Rightarrow> EXTERNAL_FLASH_HEADER_TYPE" where
  "read_header target =
     (let page_address :: u16 = ucast (target div EXTERNAL_FLASH_PAGE_NUMBER);
          byte_address :: u8 = ucast (target mod EXTERNAL_FLASH_PAGE_NUMBER);
          header = \<lparr>ExternalFlash_OpCode_Cmd = 0,
                    ExternalFlash_Address =
                      replicate (EXTERNAL_FLASH_ADDRESS_SIZE_BYTES + EXTERNAL_FLASH_READ_DUMMY_BYES) 0\<rparr>;
          header = header\<lparr>ExternalFlash_OpCode_Cmd := EXTERNAL_FLASH_CMD_READ_MEMORY\<rparr>
      in header\<lparr>ExternalFlash_Address :=
                  pack_address page_address byte_address (ExternalFlash_Address header)\<rparr>)"

definition write_header :: "u32 \<Rightarrow> EXTERNAL_FLASH_HEADER_TYPE" where
  "write_header address =
     (let header = \<lparr>ExternalFlash_OpCode_Cmd = 0,
                    ExternalFlash_Address =
                      replicate (EXTERNAL_FLASH_ADDRESS_SIZE_BYTES + EXTERNAL_FLASH_WRITE_DUMMY_BYTES) 0\<rparr>;
          header = header\<lparr>ExternalFlash_OpCode_Cmd := EXTERNAL_FLASH_CMD_WRITE_MEMORY\<rparr>;
          page_address :: u16 = ucast (address div EXTERNAL_FLASH_PAGE_NUMBER);
          byte_address :: u8 = ucast (address mod EXTERNAL_FLASH_PAGE_NUMBER);
          header = header\<lparr>ExternalFlash_OpCode_Cmd := EXTERNAL_FLASH_CMD_READ_MEMORY\<rparr>
      in header\<lparr>ExternalFlash_Address :=
                  pack_address page_address byte_address (ExternalFlash_Address header)\<rparr>)"

subsection \<open>Private functions\<close>

definition SendReadHeader :: "configuration \<Rightarrow> nat \<Rightarrow> module_state \<Rightarrow> bool \<times> module_state" where
  "SendReadHeader env instance_id s =
     (let header = read_header (NVM_Target_Address (instance_of s instance_id))
      in bus_write env instance_id (Header_Bytes (header_bytes header))
           (of_nat (length (header_bytes header))) s)"

definition SendWriteHeader :: "configuration \<Rightarrow> nat \<Rightarrow> module_state \<Rightarrow> bool \<times> module_state" where
  "SendWriteHeader env instance_id s =
     (let header = write_header (NVM_Target_Address (instance_of s instance_id)
                                  + ucast (NVM_Buffer_Progress (instance_of s instance_id)))
      in bus_write env instance_id (Header_Bytes (header_bytes header))
           (of_nat (length (header_bytes header))) s)"

definition WriteData :: "configuration \<Rightarrow> nat \<Rightarrow> u16 \<Rightarrow> module_state \<Rightarrow> bool \<times> module_state" where
  "WriteData env instance_id write_size s =
     bus_write env instance_id
       (Buffer_At (NVM_Buffer_Pointer (instance_of s instance_id)
                   + ucast (NVM_Buffer_Progress (instance_of s instance_id))))
       write_size s"

definition ReadData :: "configuration \<Rightarrow> nat \<Rightarrow> module_state \<Rightarrow> bool \<times> module_state" where
  "ReadData env instance_id s =
     (case Read (bus env instance_id) of
        None \<Rightarrow> (False, s)
      | Some read_handler \<Rightarrow>
          (let channel = Bus_Instance_Channel (instance_of s instance_id);
               n = NVM_Buffer_Size (instance_of s instance_id);
               s1 = call (Call_Read (bus_id env instance_id) channel
                            (NVM_Buffer_Pointer (instance_of s instance_id)) n) s
           in if read_handler channel n then (True, start_timeout env s1) else (False, s1)))"

definition ExecuteCallBack :: "configuration \<Rightarrow> COMMON_I_CALLBACK_TYPE \<Rightarrow> module_state \<Rightarrow> module_state" where
  "ExecuteCallBack env data s =
     (let data = data\<lparr>Generic_Provider_Id := GENERIC_NVDATA_EXTERNAL_FLASH env\<rparr>
      in call (Callback__Notify data (Source_Instance_Id data)) s)"

subsection \<open>ExternalFlash__Initialize\<close>

text \<open>The instance store after \<open>memset\<close> with zero. The first enumerator of the state
  type is \<open>EXTERNAL_FLASH_STATE_INITIALIZE\<close>; the process field is written again by the loop
  of \<open>ExternalFlash__Initialize\<close> before anything reads it.\<close>

definition zero_instance :: NVMEMORY_INSTANCE_TYPE where
  "zero_instance =
     \<lparr>Bus_Instance_Channel = 0, NVM_State = EXTERNAL_FLASH_STATE_INITIALIZE,
      NVM_Current_Process = NVDATA_PROCESS_NONE, NVM_Buffer_Pointer = 0,
      NVM_Target_Address = 0, NVM_Buffer_Size = 0, NVM_Buffer_Progress = 0,
      NVM_Mirror_Pointer = 0, NVM_Instance_Memory_Offset = 0\<rparr>"

text \<open>The module's static variables as the C start-up code leaves them.\<close>

definition startup_state :: "configuration \<Rightarrow> module_state" where
  "startup_state env =
     \<lparr>ExternalFlash_Instance_Store = replicate (EXTERNAL_FLASH_CH_NUM env) zero_instance,
      ExternalFlash_Handler_Index = INVALID_VALUE_8,
      ExternalFlash_Timeout_Handle = INVALID_VALUE_8,
      calls = []\<rparr>"

text \<open>The body of the loop of \<open>ExternalFlash__Initialize\<close>.\<close>

definition Initialize_instance :: "configuration \<Rightarrow> nat \<Rightarrow> module_state \<Rightarrow> module_state" where
  "Initialize_instance env instance_id s =
     (let m = ExternalFlash_Map env ! instance_id;
          s = (case GetAllocation (bus env instance_id) of
                 None \<Rightarrow> s
               | Some alloc_handler \<Rightarrow>
                   update_instance instance_id
                     (\<lambda>x. x\<lparr>Bus_Instance_Channel := alloc_handler (ExternalFlash_Provider_Bound_Id m)\<rparr>)
                     (call (Call_GetAllocation (bus_id env instance_id)
                              (ExternalFlash_Provider_Bound_Id m)) s));
          s = (if ExternalFlash_WP_Feature m
               then call (DigitalIO_Write (ExternalFlash_WP_Pin m) (\<not> ExternalFlash_WP_Level m)) s
               else s);
          s = (if ExternalFlash_Reset_Feature m
               then call (DigitalIO_Write (ExternalFlash_Reset_Pin m) (\<not> ExternalFlash_Reset_Level m)) s
               else s);
          s = (if RegisterEventHandler (bus env instance_id)
               then call (Call_RegisterEventHandler (bus_id env instance_id)
                            (Bus_Instance_Channel (instance_of s instance_id))) s
               else s)
      in update_instance instance_id
           (\<lambda>x. x\<lparr>NVM_State := EXTERNAL_FLASH_STATE_INITIALIZE,
                  NVM_Current_Process := NVDATA_PROCESS_NONE\<rparr>) s)"

definition ExternalFlash__Initialize :: "configuration \<Rightarrow> module_state \<Rightarrow> module_state" where
  "ExternalFlash__Initialize env s =
     (let s = call Callback__Initialize s;
          s = (call Call_CreateTask s)\<lparr>ExternalFlash_Handler_Index := SystemTimers__CreateTask env\<rparr>;
          s = s\<lparr>ExternalFlash_Instance_Store :=
                 replicate (EXTERNAL_FLASH_CH_NUM env) zero_instance\<rparr>
      in fold (Initialize_instance env) [0..<EXTERNAL_FLASH_CH_NUM env] s)"

subsection \<open>ExternalFlash_Handler\<close>

text \<open>The write size of the state \<open>SEND_WRITE_HEADER\<close>. The difference of the two 16-bit
  fields is computed in \<open>int\<close> and the minimum stored in a \<open>uint16_t\<close>; the second minimum
  is taken in 32-bit unsigned arithmetic and stored in the same \<open>uint16_t\<close>.\<close>

definition write_size_of :: "NVMEMORY_INSTANCE_TYPE \<Rightarrow> u16" where
  "write_size_of x =
     (let write_size :: u16 =
            word_of_int (MIN_macro (uint (NVM_Buffer_Size x) - uint (NVM_Buffer_Progress x))
                           EXTERNAL_FLASH_PAGE_SIZE);
          write_size :: u16 =
            ucast (MIN_macro
                     (EXTERNAL_FLASH_PAGE_SIZE
                        - ((NVM_Target_Address x + ucast (NVM_Buffer_Progress x))
                             mod EXTERNAL_FLASH_PAGE_SIZE))
                     (ucast write_size :: u32))
      in write_size)"

text \<open>\<open>stop_handler\<close> is called without a check for \<open>NULL\<close>.\<close>

definition stop_transaction :: "configuration \<Rightarrow> nat \<Rightarrow> module_state \<Rightarrow> fault + module_state" where
  "stop_transaction env instance_id s =
     (if StopTransaction (bus env instance_id)
      then Inr (call (Call_StopTransaction (bus_id env instance_id)
                        (Bus_Instance_Channel (instance_of s instance_id))) s)
      else Inl Null_Handler_Call)"

text \<open>The notification record that the states \<open>READ\<close> and \<open>WRITE\<close> fill in; its provider
  field is not initialised there, \<open>ExecuteCallBack\<close> writes it.\<close>

definition completion_record :: "configuration \<Rightarrow> nat \<Rightarrow> NVMEMORY_INSTANCE_TYPE \<Rightarrow> COMMON_I_CALLBACK_TYPE" where
  "completion_record env instance_id x =
     \<lparr>Generic_Provider_Id = 0,
      Source_Instance_Id = of_nat instance_id,
      Event_Value = COMBINE_BYTES (NVDATA_PROCESS_marker env (NVM_Current_Process x))
                      (NVM_Buffer_Size x)\<rparr>"

text \<open>The body of the loop of \<open>ExternalFlash_Handler\<close>: one poll step of one instance. The
  \<open>switch\<close> has a body for four states; in every other state the step does nothing (the
  label \<open>EXTERNAL_FLASH_STATE_SEND_READ_STATUS_REGISTER_COMMAND\<close> of the source names no
  enumerator of the state type).\<close>

definition Handler_instance :: "configuration \<Rightarrow> nat \<Rightarrow> module_state \<Rightarrow> fault + module_state" where
  "Handler_instance env instance_id s =
     (let x = instance_of s instance_id in
      case NVM_State x of
        EXTERNAL_FLASH_STATE_SEND_READ_HEADER \<Rightarrow>
          (if NVM_Current_Process x = NVDATA_PROCESS_WRITE
           then Inr (snd (ReadData env instance_id
                  (update_instance instance_id
                     (\<lambda>y. y\<lparr>NVM_Current_Process := NVDATA_PROCESS_WAIT_READ,
                            NVM_State := EXTERNAL_FLASH_STATE_READ\<rparr>) s)))
           else Inr s)
      | EXTERNAL_FLASH_STATE_READ \<Rightarrow>
          (if NVM_Current_Process x = NVDATA_PROCESS_READ
           then (case stop_transaction env instance_id s of
                   Inl f \<Rightarrow> Inl f
                 | Inr s1 \<Rightarrow>
                     (let nv_callback = completion_record env instance_id x;
                          s2 = update_instance instance_id
                                 (\<lambda>y. y\<lparr>NVM_Current_Process := NVDATA_PROCESS_NONE,
                                        NVM_State := EXTERNAL_FLASH_STATE_IDLE\<rparr>) s1
                      in Inr (ExecuteCallBack env nv_callback s2)))
           else Inr s)
      | EXTERNAL_FLASH_STATE_SEND_WRITE_HEADER \<Rightarrow>
          (if NVM_Current_Process x = NVDATA_PROCESS_WRITE
           then (let write_size = write_size_of x in
                 case StartTransaction (bus env instance_id) of
                   None \<Rightarrow> Inr s
                 | Some start_handler \<Rightarrow>
                     (let s1 = call (Call_StartTransaction (bus_id env instance_id)
                                       (Bus_Instance_Channel x)) s
                      in if start_handler (Bus_Instance_Channel x)
                         then Inr (snd (WriteData env instance_id write_size
                                (update_instance instance_id
                                   (\<lambda>y. y\<lparr>NVM_Current_Process := NVDATA_PROCESS_WAIT_WRITE,
                                          NVM_State := EXTERNAL_FLASH_STATE_WRITE\<rparr>) s1)))
                         else Inr s1))
           else Inr s)
      | EXTERNAL_FLASH_STATE_WRITE \<Rightarrow>
          (if NVM_Current_Process x = NVDATA_PROCESS_WRITE
           then (case stop_transaction env instance_id s of
                   Inl f \<Rightarrow> Inl f
                 | Inr s1 \<Rightarrow>
                     if NVM_Buffer_Progress x < NVM_Buffer_Size x
                     then Inr (snd (SendWriteHeader env instance_id s1))
                     else
                       (let m = ExternalFlash_Map env ! instance_id;
                            s2 = (if ExternalFlash_WP_Feature m
                                  then call (DigitalIO_Write (ExternalFlash_WP_Pin m)
                                               (\<not> ExternalFlash_WP_Level m)) s1
                                  else s1);
                            nv_callback = completion_record env instance_id x;
                            s3 = ExecuteCallBack env nv_callback s2
                        in Inr (update_instance instance_id
                                  (\<lambda>y. y\<lparr>NVM_Current_Process := NVDATA_PROCESS_NONE,
                                         NVM_State := EXTERNAL_FLASH_STATE_IDLE\<rparr>) s3)))
           else Inr s)
      | _ \<Rightarrow> Inr s)"

fun Handler_loop :: "configuration \<Rightarrow> nat list \<Rightarrow> module_state \<Rightarrow> fault + module_state" where
  "Handler_loop env [] s = Inr s"
| "Handler_loop env (instance_id # rest) s =
     (case Handler_instance env instance_id s of
        Inl f \<Rightarrow> Inl f
      | Inr s' \<Rightarrow> Handler_loop env rest s')"

definition ExternalFlash_Handler :: "configuration \<Rightarrow> module_state \<Rightarrow> fault + module_state" where
  "ExternalFlash_Handler env s = Handler_loop env [0..<EXTERNAL_FLASH_CH_NUM env] s"

subsection \<open>ExternalFlash__Read and ExternalFlash__Write\<close>

definition ExternalFlash__Read ::
  "configuration \<Rightarrow> u8 \<Rightarrow> u32 \<Rightarrow> u32 \<Rightarrow> u16 \<Rightarrow> module_state \<Rightarrow> bool \<times> module_state" where
  "ExternalFlash__Read env instance_id buffer data_address sz s =
     (let success = False; i = unat instance_id in
      if i < EXTERNAL_FLASH_CH_NUM env then
        if Bus_Instance_Channel (instance_of s i) \<noteq> INVALID_VALUE_8 then
          if NVM_Current_Process (instance_of s i) = NVDATA_PROCESS_NONE \<and>
             NVM_State (instance_of s i) = EXTERNAL_FLASH_STATE_IDLE
          then
            (case StartTransaction (bus env i) of
               None \<Rightarrow> (success, s)
             | Some start_handler \<Rightarrow>
                 (let s1 = call (Call_StartTransaction (bus_id env i)
                                   (Bus_Instance_Channel (instance_of s i))) s
                  in if start_handler (Bus_Instance_Channel (instance_of s i))
                     then
                       (let s2 = update_instance i
                              (\<lambda>x. x\<lparr>NVM_Buffer_Pointer := buffer,
                                     NVM_Target_Address :=
                                       ucast (NVM_Instance_Memory_Offset x) + data_address,
                                     NVM_Buffer_Size := sz,
                                     NVM_Buffer_Progress := 0,
                                     NVM_Current_Process := NVDATA_PROCESS_WAIT_WRITE,
                                     NVM_State := EXTERNAL_FLASH_STATE_SEND_READ_HEADER\<rparr>) s1
                        in (success, snd (SendReadHeader env i s2)))
                     else (success, s1)))
          else (success, s)
        else (success, s)
      else (success, s))"

definition ExternalFlash__Write ::
  "configuration \<Rightarrow> u8 \<Rightarrow> u32 \<Rightarrow> u32 \<Rightarrow> u16 \<Rightarrow> module_state \<Rightarrow> bool \<times> module_state" where
  "ExternalFlash__Write env instance_id buffer data_address sz s =
     (let success = False; i = unat instance_id in
      if i < EXTERNAL_FLASH_CH_NUM env then
        if Bus_Instance_Channel (instance_of s i) \<noteq> INVALID_VALUE_8 then
          if NVM_Current_Process (instance_of s i) = NVDATA_PROCESS_NONE \<and>
             NVM_State (instance_of s i) = EXTERNAL_FLASH_STATE_IDLE
          then
            (case StartTransaction (bus env i) of
               None \<Rightarrow> (success, s)
             | Some start_handler \<Rightarrow>
                 (let s1 = call (Call_StartTransaction (bus_id env i)
                                   (Bus_Instance_Channel (instance_of s i))) s
                  in if start_handler (Bus_Instance_Channel (instance_of s i))
                     then
                       (let m = ExternalFlash_Map env ! i;
                            s2 = (if ExternalFlash_WP_Feature m
                                  then call (DigitalIO_Write (ExternalFlash_WP_Pin m)
                                               (ExternalFlash_WP_Level m)) s1
                                  else s1);
                            s3 = update_instance i
                              (\<lambda>x. x\<lparr>NVM_Buffer_Pointer := buffer,
                                     NVM_Target_Address :=
                                       ucast (NVM_Instance_Memory_Offset x) + data_address,
                                     NVM_Buffer_Size := sz,
                                     NVM_Buffer_Progress := 0,
                                     NVM_Current_Process := NVDATA_PROCESS_WAIT_WRITE,
                                     NVM_State := EXTERNAL_FLASH_STATE_SEND_WRITE_HEADER\<rparr>) s2;
                            s4 = snd (SendWriteHeader env i s3);
                            s5 = (if NVM_Mirror_Pointer (instance_of s4 i) \<noteq> 0
                                  then call (Mirror_memcpy
                                               (NVM_Mirror_Pointer (instance_of s4 i) + data_address)
                                               buffer sz) s4
                                  else s4);
                            s6 = call (SystemTimers__ResumeTask (ExternalFlash_Handler_Index s5)) s5
                        in (True, s6))
                     else (success, s1)))
          else (success, s)
        else (success, s)
      else (success, s))"

subsection \<open>ExternalFlash__GetAllocation\<close>

text \<open>The loop of \<open>ExternalFlash__GetAllocation\<close> over the entries of the configuration
  map that are left, with the loop counter \<open>instance_id\<close>; the result is the value of the
  counter when the loop is left, by \<open>break\<close> or at its end.\<close>

fun GetAllocation_loop ::
  "u8 \<Rightarrow> u32 \<Rightarrow> u16 \<Rightarrow> nat \<Rightarrow> EXTERNAL_FLASH_MAP_TYPE list \<Rightarrow> module_state \<Rightarrow> nat \<times> module_state" where
  "GetAllocation_loop client_id mirror_pointer nv_instance_offset instance_id [] s = (instance_id, s)"
| "GetAllocation_loop client_id mirror_pointer nv_instance_offset instance_id (m # rest) s =
     (if ExternalFlash_Channel m = client_id
      then (instance_id,
            update_instance instance_id
              (\<lambda>x. x\<lparr>NVM_Mirror_Pointer := mirror_pointer,
                     NVM_Instance_Memory_Offset := nv_instance_offset\<rparr>) s)
      else GetAllocation_loop client_id mirror_pointer nv_instance_offset (Suc instance_id) rest s)"

definition ExternalFlash__GetAllocation ::
  "configuration \<Rightarrow> u8 \<Rightarrow> u32 \<Rightarrow> u16 \<Rightarrow> module_state \<Rightarrow> u8 \<times> module_state" where
  "ExternalFlash__GetAllocation env client_id mirror_pointer nv_instance_offset s =
     (let (instance_id, s') =
            GetAllocation_loop client_id mirror_pointer nv_instance_offset 0 (ExternalFlash_Map env) s
      in (of_nat instance_id, s'))"

subsection \<open>CommBusEventHandler\<close>

text \<open>What the handler does once \<open>event_match\<close> is \<open>TRUE\<close>: add the length to the progress
  of the instance, release the timeout handle, and leave the loop.\<close>

definition event_matched :: "nat \<Rightarrow> u8 \<Rightarrow> module_state \<Rightarrow> module_state" where
  "event_matched channel_index bus_length s =
     (let s1 = update_instance channel_index
                 (\<lambda>x. x\<lparr>NVM_Buffer_Progress := NVM_Buffer_Progress x + ucast bus_length\<rparr>) s;
          s2 = call (SystemTimers__ReleaseHandle (ExternalFlash_Timeout_Handle s1)) s1
      in s2\<lparr>ExternalFlash_Timeout_Handle := INVALID_VALUE_8\<rparr>)"

text \<open>The loop over the channels. \<open>event_match\<close> is \<open>FALSE\<close> at the start of every pass:
  the pass that sets it leaves the loop.\<close>

fun CommBusEventHandler_loop ::
  "configuration \<Rightarrow> COMMON_I_CALLBACK_TYPE \<Rightarrow> nat list \<Rightarrow> module_state \<Rightarrow> module_state" where
  "CommBusEventHandler_loop env bus_event [] s = s"
| "CommBusEventHandler_loop env bus_event (channel_index # rest) s =
     (let bus_length = LOBYTE (Event_Value bus_event) in
      if Generic_Provider_Id bus_event = bus_id env channel_index then
        if Bus_Instance_Channel (instance_of s channel_index) = Source_Instance_Id bus_event then
          (case NVM_Current_Process (instance_of s channel_index) of
             NVDATA_PROCESS_WAIT_READ \<Rightarrow>
               event_matched channel_index bus_length
                 (call (SystemTimers__SetTaskIdxNextCall (ExternalFlash_Handler_Index s))
                    (update_instance channel_index
                       (\<lambda>x. x\<lparr>NVM_Current_Process := NVDATA_PROCESS_READ\<rparr>) s))
           | NVDATA_PROCESS_WAIT_WRITE \<Rightarrow>
               event_matched channel_index bus_length
                 (call (SystemTimers__SetTaskIdxNextCall (ExternalFlash_Handler_Index s))
                    (update_instance channel_index
                       (\<lambda>x. x\<lparr>NVM_Current_Process := NVDATA_PROCESS_WRITE\<rparr>) s))
           | _ \<Rightarrow> CommBusEventHandler_loop env bus_event rest s)
        else CommBusEventHandler_loop env bus_event rest s
      else CommBusEventHandler_loop env bus_event rest s)"

definition CommBusEventHandler :: "configuration \<Rightarrow> COMMON_I_CALLBACK_TYPE \<Rightarrow> module_state \<Rightarrow> module_state" where
  "CommBusEventHandler env event s =
     CommBusEventHandler_loop env event [0..<EXTERNAL_FLASH_CH_NUM env] s"

subsection \<open>Observing the calls\<close>

fun header_of :: "external_call \<Rightarrow> u8 list list" where
  "header_of (Call_Write provider channel (Header_Bytes h) n) = [h]"
| "header_of c = []"

definition headers_sent :: "external_call list \<Rightarrow> u8 list list" where
  "headers_sent cs = concat (map header_of cs)"

fun payload_of :: "external_call \<Rightarrow> (u32 \<times> u16) list" where
  "payload_of (Call_Write provider channel (Buffer_At a) n) = [(a, n)]"
| "payload_of c = []"

definition payload_writes :: "external_call list \<Rightarrow> (u32 \<times> u16) list" where
  "payload_writes cs = concat (map payload_of cs)"

fun notification_of :: "external_call \<Rightarrow> (COMMON_I_CALLBACK_TYPE \<times> u8) list" where
  "notification_of (Callback__Notify e source_id) = [(e, source_id)]"
| "notification_of c = []"

definition notifications :: "external_call list \<Rightarrow> (COMMON_I_CALLBACK_TYPE \<times> u8) list" where
  "notifications cs = concat (map notification_of cs)"

subsection \<open>Runs of the driver\<close>

text \<open>After a request the driver is moved on by two things: a call of the periodic handler
  and a completion event from the bus.\<close>

datatype driver_step = Poll | Bus_Event COMMON_I_CALLBACK_TYPE

fun run :: "configuration \<Rightarrow> driver_step list \<Rightarrow> module_state \<Rightarrow> fault + module_state" where
  "run env [] s = Inr s"
| "run env (Poll # rest) s =
     (case ExternalFlash_Handler env s of Inl f \<Rightarrow> Inl f | Inr s' \<Rightarrow> run env rest s')"
| "run env (Bus_Event e # rest) s = run env rest (CommBusEventHandler env e s)"

subsection \<open>A reference configuration\<close>

text \<open>Two instances on one bus provider whose handlers are all present and always succeed;
  instance 0 has the write-protect pin. \<open>idle_state\<close> has both instances idle and bound to
  the channels 0 and 1; \<open>completion_event channel n\<close> is the completion event of that provider for
  a channel, reporting \<open>n\<close> bytes.\<close>

definition example_bus :: COMMBUS_HANDLERS where
  "example_bus =
     \<lparr>GetAllocation = Some (\<lambda>bound_id. bound_id), RegisterEventHandler = True,
      StartTransaction = Some (\<lambda>channel. True), StopTransaction = True,
      Write = Some (\<lambda>channel n. True), Read = Some (\<lambda>channel n. True)\<rparr>"

definition example_marker :: "NVDATA_PROCESS_TYPE \<Rightarrow> u8" where
  "example_marker p =
     (case p of NVDATA_PROCESS_NONE \<Rightarrow> 0 | NVDATA_PROCESS_WAIT_READ \<Rightarrow> 1
      | NVDATA_PROCESS_READ \<Rightarrow> 2 | NVDATA_PROCESS_WAIT_WRITE \<Rightarrow> 3 | NVDATA_PROCESS_WRITE \<Rightarrow> 4)"

definition example_configuration :: configuration where
  "example_configuration =
     \<lparr>ExternalFlash_Map =
        [\<lparr>ExternalFlash_Channel = 0, ExternalFlash_Provider_Bound_Id = 0,
          ExternalFlash_WP_Pin = 1, ExternalFlash_WP_Feature = True, ExternalFlash_WP_Level = True,
          ExternalFlash_Reset_Pin = 2, ExternalFlash_Reset_Feature = False,
          ExternalFlash_Reset_Level = False, Generic_Comm_Bus_Id = 0\<rparr>,
         \<lparr>ExternalFlash_Channel = 1, ExternalFlash_Provider_Bound_Id = 1,
          ExternalFlash_WP_Pin = 3, ExternalFlash_WP_Feature = False, ExternalFlash_WP_Level = False,
          ExternalFlash_Reset_Pin = 4, ExternalFlash_Reset_Feature = False,
          ExternalFlash_Reset_Level = False, Generic_Comm_Bus_Id = 0\<rparr>],
      GENERIC_COMM_BUS_HANDLERS = (\<lambda>provider. example_bus),
      GENERIC_NVDATA_EXTERNAL_FLASH = 7,
      NVDATA_PROCESS_marker = example_marker,
      SystemTimers__AllocateHandle = 0,
      SystemTimers__CreateTask = 0\<rparr>"

definition initialized_state :: module_state where
  "initialized_state =
     ExternalFlash__Initialize example_configuration (startup_state example_configuration)"

definition idle_instance :: "u8 \<Rightarrow> NVMEMORY_INSTANCE_TYPE" where
  "idle_instance channel =
     zero_instance\<lparr>Bus_Instance_Channel := channel, NVM_State := EXTERNAL_FLASH_STATE_IDLE\<rparr>"

definition idle_state :: module_state where
  "idle_state =
     \<lparr>ExternalFlash_Instance_Store = [idle_instance 0, idle_instance 1],
      ExternalFlash_Handler_Index = 0,
      ExternalFlash_Timeout_Handle = INVALID_VALUE_8,
      calls = []\<rparr>"

definition completion_event :: "u8 \<Rightarrow> u8 \<Rightarrow> COMMON_I_CALLBACK_TYPE" where
  "completion_event channel n =
     \<lparr>Generic_Provider_Id = 0, Source_Instance_Id = channel, Event_Value = ucast n\<rparr>"

text \<open>Instance 0 after a write request of 300 bytes at address \<open>0x1F0\<close> has been accepted
  and the completion event of its header has arrived.\<close>

definition write_pending_state :: module_state where
  "write_pending_state =
     CommBusEventHandler example_configuration (completion_event 0 0)
       (snd (ExternalFlash__Write example_configuration 0 0x2000 0x1F0 300 idle_state))"

text \<open>Instance 0 after a read request of 16 bytes has been accepted, the header has been sent
  and the payload read has been issued, when the bus reports the payload complete with 10
  bytes transferred.\<close>

definition short_read_state :: module_state where
  "short_read_state =
     projr (run example_configuration
              [Bus_Event (completion_event 0 0), Poll, Bus_Event (completion_event 0 10)]
              (snd (ExternalFlash__Read example_configuration 0 0x2000 0 16 idle_state)))"

text \<open>The write of 300 bytes at address 0 on instance 0: the request, the completion event of
  the header, a poll, the completion event of the first chunk (an event holds the length in one
  byte, and the low byte of 256 is 0), a poll, then one more completion event and two more
  polls.\<close>

definition write_300_run :: "fault + module_state" where
  "write_300_run =
     run example_configuration
       [Bus_Event (completion_event 0 0), Poll, Bus_Event (completion_event 0 0), Poll,
        Bus_Event (completion_event 0 4), Poll, Poll]
       (snd (ExternalFlash__Write example_configuration 0 0x2000 0 300 idle_state))"

text \<open>Instance 0 right after a write request of 300 bytes at address 0 has been accepted;
  then after the completion event of the header and the poll that sends the first chunk.\<close>

definition write_issued_state :: module_state where
  "write_issued_state =
     snd (ExternalFlash__Write example_configuration 0 0x2000 0 300 idle_state)"

definition first_chunk_state :: module_state where
  "first_chunk_state =
     projr (run example_configuration [Bus_Event (completion_event 0 0), Poll] write_issued_state)"



subsection \<open>Instances with an operation in flight\<close>

text \<open>An instance is busy when it is not in state \<open>IDLE\<close> with process \<open>NONE\<close>: the
  condition under which \<open>ExternalFlash__Read\<close> and \<open>ExternalFlash__Write\<close> do not look
  further.\<close>

definition busy :: "module_state \<Rightarrow> nat \<Rightarrow> bool" where
  "busy s i =
     (\<not> (NVM_State (instance_of s i) = EXTERNAL_FLASH_STATE_IDLE \<and>
         NVM_Current_Process (instance_of s i) = NVDATA_PROCESS_NONE))"

text \<open>Instance \<open>i\<close> is stalled when it is in state \<open>WRITE\<close> with process \<open>WRITE\<close> and
  bytes left to write, its bus can stop a transaction, and every other instance is idle.\<close>

definition stalled :: "configuration \<Rightarrow> nat \<Rightarrow> module_state \<Rightarrow> bool" where
  "stalled env i s =
     (NVM_State (instance_of s i) = EXTERNAL_FLASH_STATE_WRITE \<and>
      NVM_Current_Process (instance_of s i) = NVDATA_PROCESS_WRITE \<and>
      NVM_Buffer_Progress (instance_of s i) < NVM_Buffer_Size (instance_of s i) \<and>
      StopTransaction (bus env i) \<and>
      list_all (\<lambda>k. k = i \<or>
                  NVM_State (instance_of s k) = EXTERNAL_FLASH_STATE_IDLE \<and>
                  NVM_Current_Process (instance_of s k) = NVDATA_PROCESS_NONE)
        [0..<EXTERNAL_FLASH_CH_NUM env])"

section \<open>Properties\<close>

subsection \<open>Arithmetic of the write size\<close>










subsection \<open>The store and the recorded calls\<close>

lemma nth_list_update_self:
  "(xs[i := v]) ! i = (if i < length xs then v else xs ! i)"
  by (simp add: list_update_beyond)

lemma nth_list_update_at:
  "(xs[k := v]) ! i = (if i = k \<and> k < length xs then v else xs ! i)"
  by (cases "i = k") (simp_all add: list_update_beyond)


lemma instance_of_update_instance_at:
  "instance_of (update_instance k f s) i =
     (if i = k \<and> k < length (ExternalFlash_Instance_Store s) then f (instance_of s k)
      else instance_of s i)"
  by (simp add: instance_of_def update_instance_def nth_list_update_at)

lemma instance_of_call [simp]: "instance_of (call c s) i = instance_of s i"
  by (simp add: instance_of_def call_def)

lemma calls_call [simp]: "calls (call c s) = calls s @ [c]"
  by (simp add: call_def)

lemma calls_update_instance [simp]: "calls (update_instance i f s) = calls s"
  by (simp add: update_instance_def)

lemma payload_writes_Nil [simp]: "payload_writes [] = []"
  by (simp add: payload_writes_def)

lemma payload_writes_Cons [simp]: "payload_writes (c # cs) = payload_of c @ payload_writes cs"
  by (simp add: payload_writes_def)

lemma headers_sent_Nil [simp]: "headers_sent [] = []"
  by (simp add: headers_sent_def)

lemma headers_sent_Cons [simp]: "headers_sent (c # cs) = header_of c @ headers_sent cs"
  by (simp add: headers_sent_def)

lemma notifications_Nil [simp]: "notifications [] = []"
  by (simp add: notifications_def)

lemma notifications_Cons [simp]: "notifications (c # cs) = notification_of c @ notifications cs"
  by (simp add: notifications_def)

lemma payload_writes_append [simp]:
  "payload_writes (xs @ ys) = payload_writes xs @ payload_writes ys"
  by (simp add: payload_writes_def)

lemma headers_sent_append [simp]:
  "headers_sent (xs @ ys) = headers_sent xs @ headers_sent ys"
  by (simp add: headers_sent_def)

lemma notifications_append [simp]:
  "notifications (xs @ ys) = notifications xs @ notifications ys"
  by (simp add: notifications_def)

lemma calls_start_timeout:
  "calls (start_timeout env s) = calls s @
     (if ExternalFlash_Timeout_Handle s = INVALID_VALUE_8
      then [Call_AllocateHandle, SystemTimers__SetMs (SystemTimers__AllocateHandle env) 50] else [])"
  by (simp add: start_timeout_def call_def)

lemma payload_writes_start_timeout [simp]:
  "payload_writes (calls (start_timeout env s)) = payload_writes (calls s)"
  by (simp add: calls_start_timeout)

lemma headers_sent_start_timeout [simp]:
  "headers_sent (calls (start_timeout env s)) = headers_sent (calls s)"
  by (simp add: calls_start_timeout)

lemma notifications_start_timeout [simp]:
  "notifications (calls (start_timeout env s)) = notifications (calls s)"
  by (simp add: calls_start_timeout)


lemma store_start_timeout [simp]:
  "ExternalFlash_Instance_Store (start_timeout env s) = ExternalFlash_Instance_Store s"
  by (simp add: start_timeout_def call_def)

lemma store_bus_write [simp]:
  "ExternalFlash_Instance_Store (snd (bus_write env i d n s)) = ExternalFlash_Instance_Store s"
  by (simp add: bus_write_def call_def Let_def split: option.splits)

lemma store_SendWriteHeader [simp]:
  "ExternalFlash_Instance_Store (snd (SendWriteHeader env i s)) = ExternalFlash_Instance_Store s"
  by (simp add: SendWriteHeader_def Let_def)

lemma store_SendReadHeader [simp]:
  "ExternalFlash_Instance_Store (snd (SendReadHeader env i s)) = ExternalFlash_Instance_Store s"
  by (simp add: SendReadHeader_def Let_def)

lemma store_call [simp]:
  "ExternalFlash_Instance_Store (call c s) = ExternalFlash_Instance_Store s"
  by (simp add: call_def)

lemma store_update_instance [simp]:
  "ExternalFlash_Instance_Store (update_instance i f s) =
     (ExternalFlash_Instance_Store s)[i := f (ExternalFlash_Instance_Store s ! i)]"
  by (simp add: update_instance_def)

subsection \<open>Requests\<close>

lemma Write_accepted_state:
  assumes "fst (ExternalFlash__Write env instance_id buffer data_address sz s)"
    and "length (ExternalFlash_Instance_Store s) = EXTERNAL_FLASH_CH_NUM env"
  shows "NVM_State (instance_of (snd (ExternalFlash__Write env instance_id buffer data_address sz s))
           (unat instance_id)) = EXTERNAL_FLASH_STATE_SEND_WRITE_HEADER"
  using assms
  by (auto simp add: ExternalFlash__Write_def Let_def instance_of_def
      split: if_splits option.splits)

lemma rejected_request:
  assumes "\<not> (unat instance_id < EXTERNAL_FLASH_CH_NUM env \<and>
              Bus_Instance_Channel (instance_of s (unat instance_id)) \<noteq> INVALID_VALUE_8 \<and>
              NVM_State (instance_of s (unat instance_id)) = EXTERNAL_FLASH_STATE_IDLE \<and>
              NVM_Current_Process (instance_of s (unat instance_id)) = NVDATA_PROCESS_NONE)"
  shows "ExternalFlash__Read env instance_id buffer data_address sz s = (False, s)"
    and "ExternalFlash__Write env instance_id buffer data_address sz s = (False, s)"
  using assms by (auto simp add: ExternalFlash__Read_def ExternalFlash__Write_def Let_def)

lemma Read_never_reports_success:
  "fst (ExternalFlash__Read env instance_id buffer data_address sz s) = False"
  by (simp add: ExternalFlash__Read_def Let_def split: option.splits)

lemma Read_start_failure:
  assumes "StartTransaction (bus env (unat instance_id)) = Some start_handler"
    and "\<not> start_handler (Bus_Instance_Channel (instance_of s (unat instance_id)))"
  shows "\<not> fst (ExternalFlash__Read env instance_id buffer data_address sz s) \<and>
         ExternalFlash_Instance_Store (snd (ExternalFlash__Read env instance_id buffer data_address sz s)) =
           ExternalFlash_Instance_Store s"
  using assms by (simp add: ExternalFlash__Read_def Let_def)

subsection \<open>What the sending functions record\<close>

lemma calls_bus_write:
  "\<exists>more. calls (snd (bus_write env i d n s)) = calls s @ more \<and> notifications more = []"
  by (auto simp add: bus_write_def Let_def calls_start_timeout split: option.splits)

lemma calls_ReadData:
  "\<exists>more. calls (snd (ReadData env i s)) = calls s @ more \<and> notifications more = []"
  by (auto simp add: ReadData_def Let_def calls_start_timeout split: option.splits)

lemma calls_WriteData:
  "\<exists>more. calls (snd (WriteData env i n s)) = calls s @ more \<and> notifications more = []"
  unfolding WriteData_def by (rule calls_bus_write)

lemma calls_SendWriteHeader_notifications:
  "\<exists>more. calls (snd (SendWriteHeader env i s)) = calls s @ more \<and> notifications more = []"
  unfolding SendWriteHeader_def Let_def by (rule calls_bus_write)

lemma calls_SendReadHeader_notifications:
  "\<exists>more. calls (snd (SendReadHeader env i s)) = calls s @ more \<and> notifications more = []"
  unfolding SendReadHeader_def Let_def by (rule calls_bus_write)

lemma calls_SendWriteHeader:
  "\<exists>more. calls (snd (SendWriteHeader env i s)) = calls s @ more \<and>
     headers_sent more =
       (case Write (bus env i) of
          None \<Rightarrow> []
        | Some write_handler \<Rightarrow>
            [header_bytes (write_header (NVM_Target_Address (instance_of s i)
                                          + ucast (NVM_Buffer_Progress (instance_of s i))))])"
  by (auto simp add: SendWriteHeader_def bus_write_def Let_def calls_start_timeout
      split: option.splits)

lemma write_header_opcode:
  "hd (header_bytes (write_header a)) = EXTERNAL_FLASH_CMD_READ_MEMORY"
  by (simp add: header_bytes_def write_header_def Let_def)

lemma Read_notifies_nothing:
  "notifications (calls (snd (ExternalFlash__Read env instance_id buffer data_address sz s))) =
     notifications (calls s)"
proof -
  have "notifications (calls (snd (SendReadHeader env i s'))) = notifications (calls s')" for i s'
    using calls_SendReadHeader_notifications [of env i s'] by auto
  then show ?thesis
    by (simp add: ExternalFlash__Read_def Let_def split: option.splits)
qed

lemma Write_notifies_nothing:
  "notifications (calls (snd (ExternalFlash__Write env instance_id buffer data_address sz s))) =
     notifications (calls s)"
proof -
  have "notifications (calls (snd (SendWriteHeader env i s'))) = notifications (calls s')" for i s'
    using calls_SendWriteHeader_notifications [of env i s'] by auto
  then show ?thesis
    by (simp add: ExternalFlash__Write_def Let_def split: option.splits)
qed

subsection \<open>Poll steps\<close>

text \<open>The notification of a poll step of instance \<open>i\<close>: none, or the completion record of the
  instance as it was before the step.\<close>

lemma Handler_instance_calls:
  assumes "Handler_instance env i s = Inr s'"
  shows "\<exists>more. calls s' = calls s @ more \<and>
           (notifications more = [] \<or>
            notifications more =
              [((completion_record env i (instance_of s i))
                  \<lparr>Generic_Provider_Id := GENERIC_NVDATA_EXTERNAL_FLASH env\<rparr>, of_nat i)] \<and>
            (NVM_Current_Process (instance_of s i) = NVDATA_PROCESS_READ \<or>
             NVM_Current_Process (instance_of s i) = NVDATA_PROCESS_WRITE))"
proof (cases "NVM_State (instance_of s i)")
  case EXTERNAL_FLASH_STATE_SEND_READ_HEADER
  with assms calls_ReadData [of env i "update_instance i
                     (\<lambda>y. y\<lparr>NVM_Current_Process := NVDATA_PROCESS_WAIT_READ,
                            NVM_State := EXTERNAL_FLASH_STATE_READ\<rparr>) s"]
  show ?thesis
    by (auto simp add: Handler_instance_def Let_def split: if_splits)
next
  case EXTERNAL_FLASH_STATE_READ
  with assms show ?thesis
    by (auto simp add: Handler_instance_def Let_def stop_transaction_def ExecuteCallBack_def
        completion_record_def split: if_splits)
next
  case EXTERNAL_FLASH_STATE_SEND_WRITE_HEADER
  with assms
    calls_WriteData [of env i "write_size_of (instance_of s i)" "update_instance i
                                   (\<lambda>y. y\<lparr>NVM_Current_Process := NVDATA_PROCESS_WAIT_WRITE,
                                          NVM_State := EXTERNAL_FLASH_STATE_WRITE\<rparr>)
          (call (Call_StartTransaction (bus_id env i) (Bus_Instance_Channel (instance_of s i))) s)"]
  show ?thesis
    by (auto simp add: Handler_instance_def Let_def split: if_splits option.splits)
next
  case EXTERNAL_FLASH_STATE_WRITE
  with assms
    calls_SendWriteHeader_notifications [of env i
      "call (Call_StopTransaction (bus_id env i) (Bus_Instance_Channel (instance_of s i))) s"]
  show ?thesis
    by (auto simp add: Handler_instance_def Let_def stop_transaction_def ExecuteCallBack_def
        completion_record_def split: if_splits)
qed (use assms in \<open>simp_all add: Handler_instance_def\<close>)

lemma Handler_instance_prefix:
  assumes "Handler_instance env j s = Inr s'"
  shows "\<exists>more. calls s' = calls s @ more"
  using Handler_instance_calls [OF assms] by blast

lemma instance_of_bus_write [simp]:
  "instance_of (snd (bus_write env i d n s)) k = instance_of s k"
  by (simp add: instance_of_def)

lemma store_ReadData [simp]:
  "ExternalFlash_Instance_Store (snd (ReadData env i s)) = ExternalFlash_Instance_Store s"
  by (simp add: ReadData_def Let_def split: option.splits)

lemma store_WriteData [simp]:
  "ExternalFlash_Instance_Store (snd (WriteData env i n s)) = ExternalFlash_Instance_Store s"
  by (simp add: WriteData_def)

lemma store_ExecuteCallBack [simp]:
  "ExternalFlash_Instance_Store (ExecuteCallBack env d s) = ExternalFlash_Instance_Store s"
  by (simp add: ExecuteCallBack_def Let_def)

lemma calls_ExecuteCallBack [simp]:
  "calls (ExecuteCallBack env d s) =
     calls s @ [Callback__Notify (d\<lparr>Generic_Provider_Id := GENERIC_NVDATA_EXTERNAL_FLASH env\<rparr>)
                  (Source_Instance_Id d)]"
  by (simp add: ExecuteCallBack_def Let_def)

lemma Handler_instance_other:
  assumes "Handler_instance env j s = Inr s'" and "i \<noteq> j"
  shows "instance_of s' i = instance_of s i"
  using assms
  by (cases "NVM_State (instance_of s j)")
     (auto simp add: Handler_instance_def Let_def stop_transaction_def instance_of_def
        split: if_splits option.splits)

text \<open>A poll step of instance \<open>i\<close> makes it idle only together with its notification.\<close>

lemma Handler_instance_busy:
  assumes "Handler_instance env i s = Inr s'"
    and "busy s i"
    and "\<forall>n \<in> set (notifications (drop (length (calls s)) (calls s'))). snd n \<noteq> of_nat i"
  shows "busy s' i"
proof (cases "NVM_State (instance_of s i)")
  case EXTERNAL_FLASH_STATE_SEND_READ_HEADER
  with assms(1,2) show ?thesis
    by (auto simp add: Handler_instance_def Let_def busy_def instance_of_def nth_list_update_self
        split: if_splits)
next
  case EXTERNAL_FLASH_STATE_READ
  with assms show ?thesis
    by (auto simp add: Handler_instance_def Let_def busy_def stop_transaction_def
        completion_record_def split: if_splits)
next
  case EXTERNAL_FLASH_STATE_SEND_WRITE_HEADER
  with assms(1,2) show ?thesis
    by (auto simp add: Handler_instance_def Let_def busy_def instance_of_def nth_list_update_self
        split: if_splits option.splits)
next
  case EXTERNAL_FLASH_STATE_WRITE
  with assms show ?thesis
    by (auto simp add: Handler_instance_def Let_def busy_def stop_transaction_def
        completion_record_def instance_of_def nth_list_update_self split: if_splits)
qed (use assms(1,2) in \<open>simp_all add: Handler_instance_def\<close>)

lemma Handler_loop_prefix:
  "Handler_loop env js s = Inr s' \<Longrightarrow> \<exists>more. calls s' = calls s @ more"
proof (induction js arbitrary: s)
  case Nil
  then show ?case by simp
next
  case (Cons j js)
  from Cons.prems obtain sm where j: "Handler_instance env j s = Inr sm"
    and rest: "Handler_loop env js sm = Inr s'"
    by (auto split: sum.splits)
  from Handler_instance_prefix [OF j] Cons.IH [OF rest] show ?case by auto
qed

lemma Handler_loop_busy:
  assumes "Handler_loop env js s = Inr s'"
    and "busy s i"
    and "\<forall>n \<in> set (notifications (drop (length (calls s)) (calls s'))). snd n \<noteq> of_nat i"
  shows "busy s' i"
  using assms
proof (induction js arbitrary: s)
  case Nil
  then show ?case by simp
next
  case (Cons j js)
  from Cons.prems(1) obtain sm where j: "Handler_instance env j s = Inr sm"
    and rest: "Handler_loop env js sm = Inr s'"
    by (auto split: sum.splits)
  from Handler_instance_prefix [OF j] obtain m1 where m1: "calls sm = calls s @ m1" by blast
  from Handler_loop_prefix [OF rest] obtain m2 where m2: "calls s' = calls sm @ m2" by blast
  from Cons.prems(3) m1 m2
  have n1: "\<forall>n \<in> set (notifications (drop (length (calls s)) (calls sm))). snd n \<noteq> of_nat i"
    and n2: "\<forall>n \<in> set (notifications (drop (length (calls sm)) (calls s'))). snd n \<noteq> of_nat i"
    by auto
  have "busy sm i"
  proof (cases "i = j")
    case True
    with j Cons.prems(2) n1 show ?thesis by (auto intro: Handler_instance_busy)
  next
    case False
    with Handler_instance_other [OF j] Cons.prems(2) show ?thesis by (simp add: busy_def)
  qed
  with rest have "Handler_loop env js sm = Inr s'" and "busy sm i" by simp_all
  then show ?case using n2 by (rule Cons.IH)
qed

lemma Handler_instance_no_request:
  assumes "NVM_State (instance_of s i) = EXTERNAL_FLASH_STATE_INITIALIZE \<or>
           NVM_State (instance_of s i) = EXTERNAL_FLASH_STATE_IDLE"
  shows "Handler_instance env i s = Inr s"
  using assms by (auto simp add: Handler_instance_def)

lemma Handler_loop_no_request:
  assumes "\<forall>i \<in> set js. NVM_State (instance_of s i) = EXTERNAL_FLASH_STATE_INITIALIZE \<or>
                          NVM_State (instance_of s i) = EXTERNAL_FLASH_STATE_IDLE"
  shows "Handler_loop env js s = Inr s"
  using assms by (induction js) (simp_all add: Handler_instance_no_request)

text \<open>In state \<open>WRITE\<close> with process \<open>WRITE\<close> and bytes left, a poll step changes no
  instance, writes no payload and notifies nobody: it stops the transaction and sends a header.\<close>

lemma WRITE_state_is_not_left:
  assumes "NVM_State (instance_of s i) = EXTERNAL_FLASH_STATE_WRITE"
    and "NVM_Current_Process (instance_of s i) = NVDATA_PROCESS_WRITE"
    and "NVM_Buffer_Progress (instance_of s i) < NVM_Buffer_Size (instance_of s i)"
    and "StopTransaction (bus env i)"
  shows "\<exists>s'. Handler_instance env i s = Inr s' \<and>
           ExternalFlash_Instance_Store s' = ExternalFlash_Instance_Store s \<and>
           payload_writes (calls s') = payload_writes (calls s) \<and>
           notifications (calls s') = notifications (calls s)"
  using assms
  by (simp add: Handler_instance_def stop_transaction_def SendWriteHeader_def bus_write_def Let_def
      calls_start_timeout split: option.splits)

subsection \<open>Bus events\<close>

lemma CommBusEventHandler_loop_no_match:
  assumes "\<forall>i\<in>set indices.
             \<not> (Generic_Provider_Id event = bus_id env i \<and>
                Bus_Instance_Channel (instance_of s i) = Source_Instance_Id event \<and>
                (NVM_Current_Process (instance_of s i) = NVDATA_PROCESS_WAIT_READ \<or>
                 NVM_Current_Process (instance_of s i) = NVDATA_PROCESS_WAIT_WRITE))"
  shows "CommBusEventHandler_loop env event indices s = s"
  using assms
proof (induction indices)
  case Nil
  show ?case by simp
next
  case (Cons i rest)
  then have rest: "CommBusEventHandler_loop env event rest s = s" by simp
  from Cons.prems have
    "\<not> (Generic_Provider_Id event = bus_id env i \<and>
        Bus_Instance_Channel (instance_of s i) = Source_Instance_Id event \<and>
        (NVM_Current_Process (instance_of s i) = NVDATA_PROCESS_WAIT_READ \<or>
         NVM_Current_Process (instance_of s i) = NVDATA_PROCESS_WAIT_WRITE))"
    by simp
  then show ?case
    by (auto simp add: rest Let_def split: NVDATA_PROCESS_TYPE.splits)
qed

lemma CommBusEventHandler_no_match:
  assumes "\<forall>i < EXTERNAL_FLASH_CH_NUM env.
             \<not> (Generic_Provider_Id event = bus_id env i \<and>
                Bus_Instance_Channel (instance_of s i) = Source_Instance_Id event \<and>
                (NVM_Current_Process (instance_of s i) = NVDATA_PROCESS_WAIT_READ \<or>
                 NVM_Current_Process (instance_of s i) = NVDATA_PROCESS_WAIT_WRITE))"
  shows "CommBusEventHandler env event s = s"
  unfolding CommBusEventHandler_def
  using assms by (intro CommBusEventHandler_loop_no_match) simp

lemma event_matched_facts:
  "calls (event_matched k n s) = calls s @ [SystemTimers__ReleaseHandle (ExternalFlash_Timeout_Handle s)]"
  "ExternalFlash_Instance_Store (event_matched k n s) =
     (ExternalFlash_Instance_Store s)
       [k := (ExternalFlash_Instance_Store s ! k)
               \<lparr>NVM_Buffer_Progress := NVM_Buffer_Progress (ExternalFlash_Instance_Store s ! k) + ucast n\<rparr>]"
  by (simp_all add: event_matched_def Let_def update_instance_def call_def)

lemma CommBusEventHandler_loop_prefix:
  "\<exists>more. calls (CommBusEventHandler_loop env event indices s) = calls s @ more \<and>
          notifications more = []"
  by (induction indices)
     (auto simp add: Let_def event_matched_facts split: NVDATA_PROCESS_TYPE.splits)

lemma CommBusEventHandler_notifies_nothing:
  "notifications (calls (CommBusEventHandler env event s)) = notifications (calls s)"
  using CommBusEventHandler_loop_prefix [of env event "[0..<EXTERNAL_FLASH_CH_NUM env]" s]
  by (auto simp add: CommBusEventHandler_def)

lemma instance_of_event_matched:
  "instance_of (event_matched k n s) i =
     (if i = k \<and> k < length (ExternalFlash_Instance_Store s)
      then (instance_of s k)\<lparr>NVM_Buffer_Progress := NVM_Buffer_Progress (instance_of s k) + ucast n\<rparr>
      else instance_of s i)"
  by (simp add: event_matched_def Let_def instance_of_def update_instance_def call_def
      nth_list_update_at)

lemma busy_event_matched:
  assumes "busy s i" and "p \<noteq> NVDATA_PROCESS_NONE"
  shows "busy (event_matched k n
                 (call c (update_instance k (\<lambda>x. x\<lparr>NVM_Current_Process := p\<rparr>) s))) i"
  using assms
  by (simp add: busy_def instance_of_event_matched instance_of_update_instance_at)

lemma CommBusEventHandler_loop_busy:
  "busy s i \<Longrightarrow> busy (CommBusEventHandler_loop env event indices s) i"
  by (induction indices)
     (simp_all add: Let_def busy_event_matched split: NVDATA_PROCESS_TYPE.splits)

subsection \<open>Runs\<close>

lemma run_prefix:
  "run env steps s = Inr s' \<Longrightarrow> \<exists>more. calls s' = calls s @ more"
proof (induction env steps s rule: run.induct)
  case (1 env s)
  then show ?case by simp
next
  case (2 env rest s)
  from "2.prems" obtain sm where p: "ExternalFlash_Handler env s = Inr sm"
    and r: "run env rest sm = Inr s'"
    by (auto split: sum.splits)
  from p have "\<exists>more. calls sm = calls s @ more"
    unfolding ExternalFlash_Handler_def by (rule Handler_loop_prefix)
  with "2.IH" [OF p r] show ?case by auto
next
  case (3 env e rest s)
  from "3.prems" have r: "run env rest (CommBusEventHandler env e s) = Inr s'" by simp
  from CommBusEventHandler_loop_prefix [of env e "[0..<EXTERNAL_FLASH_CH_NUM env]" s]
    "3.IH" [OF r]
  show ?case by (auto simp add: CommBusEventHandler_def)
qed

lemma run_busy:
  assumes "run env steps s = Inr s'"
    and "busy s i"
    and "\<forall>n \<in> set (notifications (drop (length (calls s)) (calls s'))). snd n \<noteq> of_nat i"
  shows "busy s' i"
  using assms
proof (induction env steps s rule: run.induct)
  case (1 env s)
  then show ?case by simp
next
  case (2 env rest s)
  from "2.prems"(1) obtain sm where p: "ExternalFlash_Handler env s = Inr sm"
    and r: "run env rest sm = Inr s'"
    by (auto split: sum.splits)
  from p have l: "Handler_loop env [0..<EXTERNAL_FLASH_CH_NUM env] s = Inr sm"
    by (simp add: ExternalFlash_Handler_def)
  from Handler_loop_prefix [OF l] obtain m1 where m1: "calls sm = calls s @ m1" by blast
  from run_prefix [OF r] obtain m2 where m2: "calls s' = calls sm @ m2" by blast
  from "2.prems"(3) m1 m2
  have n1: "\<forall>n \<in> set (notifications (drop (length (calls s)) (calls sm))). snd n \<noteq> of_nat i"
    and n2: "\<forall>n \<in> set (notifications (drop (length (calls sm)) (calls s'))). snd n \<noteq> of_nat i"
    by auto
  from l "2.prems"(2) n1 have "busy sm i" by (rule Handler_loop_busy)
  with "2.IH" [OF p r] n2 show ?case by simp
next
  case (3 env e rest s)
  let ?sm = "CommBusEventHandler env e s"
  from "3.prems"(1) have r: "run env rest ?sm = Inr s'" by simp
  from CommBusEventHandler_loop_prefix [of env e "[0..<EXTERNAL_FLASH_CH_NUM env]" s]
  obtain m1 where m1: "calls ?sm = calls s @ m1"
    by (auto simp add: CommBusEventHandler_def)
  from run_prefix [OF r] obtain m2 where m2: "calls s' = calls ?sm @ m2" by blast
  from "3.prems"(3) m1 m2
  have n2: "\<forall>n \<in> set (notifications (drop (length (calls ?sm)) (calls s'))). snd n \<noteq> of_nat i"
    by auto
  from "3.prems"(2) have "busy ?sm i"
    unfolding CommBusEventHandler_def by (rule CommBusEventHandler_loop_busy)
  with "3.IH" [OF r] n2 show ?case by simp
qed

text \<open>A stalled write stays stalled: whatever polls and bus events follow, no instance
  changes, no payload is written and nothing is notified.\<close>

lemma stalled_cong:
  "ExternalFlash_Instance_Store s' = ExternalFlash_Instance_Store s \<Longrightarrow>
     stalled env i s \<Longrightarrow> stalled env i s'"
  by (simp add: stalled_def instance_of_def)

lemma stalled_Handler_loop:
  assumes "stalled env i s" and "set js \<subseteq> {0..<EXTERNAL_FLASH_CH_NUM env}"
  shows "\<exists>s'. Handler_loop env js s = Inr s' \<and>
           ExternalFlash_Instance_Store s' = ExternalFlash_Instance_Store s \<and>
           payload_writes (calls s') = payload_writes (calls s) \<and>
           notifications (calls s') = notifications (calls s)"
  using assms
proof (induction js arbitrary: s)
  case Nil
  then show ?case by simp
next
  case (Cons j js)
  have "\<exists>sm. Handler_instance env j s = Inr sm \<and>
           ExternalFlash_Instance_Store sm = ExternalFlash_Instance_Store s \<and>
           payload_writes (calls sm) = payload_writes (calls s) \<and>
           notifications (calls sm) = notifications (calls s)"
  proof (cases "j = i")
    case True
    with Cons.prems(1) show ?thesis
      by (intro WRITE_state_is_not_left) (simp_all add: stalled_def)
  next
    case False
    with Cons.prems have "NVM_State (instance_of s j) = EXTERNAL_FLASH_STATE_IDLE"
      by (auto simp add: stalled_def list_all_iff)
    then have "Handler_instance env j s = Inr s"
      by (simp add: Handler_instance_no_request)
    then show ?thesis by simp
  qed
  then obtain sm where sm: "Handler_instance env j s = Inr sm"
    and store: "ExternalFlash_Instance_Store sm = ExternalFlash_Instance_Store s"
    and obs: "payload_writes (calls sm) = payload_writes (calls s)"
      "notifications (calls sm) = notifications (calls s)"
    by blast
  from store Cons.prems(1) have "stalled env i sm" by (rule stalled_cong)
  moreover from Cons.prems(2) have "set js \<subseteq> {0..<EXTERNAL_FLASH_CH_NUM env}" by simp
  ultimately obtain s' where "Handler_loop env js sm = Inr s'"
    and "ExternalFlash_Instance_Store s' = ExternalFlash_Instance_Store sm"
    and "payload_writes (calls s') = payload_writes (calls sm)"
    and "notifications (calls s') = notifications (calls sm)"
    using Cons.IH by blast
  with sm store obs show ?case by simp
qed

lemma stalled_event:
  assumes "stalled env i s"
  shows "CommBusEventHandler env e s = s"
proof (rule CommBusEventHandler_no_match, intro allI impI)
  fix k assume "k < EXTERNAL_FLASH_CH_NUM env"
  with assms have "NVM_Current_Process (instance_of s k) = NVDATA_PROCESS_WRITE \<or>
                   NVM_Current_Process (instance_of s k) = NVDATA_PROCESS_NONE"
    by (auto simp add: stalled_def list_all_iff)
  then show "\<not> (Generic_Provider_Id e = bus_id env k \<and>
              Bus_Instance_Channel (instance_of s k) = Source_Instance_Id e \<and>
              (NVM_Current_Process (instance_of s k) = NVDATA_PROCESS_WAIT_READ \<or>
               NVM_Current_Process (instance_of s k) = NVDATA_PROCESS_WAIT_WRITE))"
    by auto
qed

lemma stalled_write_never_completes:
  assumes "stalled env i s"
  shows "\<exists>s'. run env steps s = Inr s' \<and>
           ExternalFlash_Instance_Store s' = ExternalFlash_Instance_Store s \<and>
           payload_writes (calls s') = payload_writes (calls s) \<and>
           notifications (calls s') = notifications (calls s)"
  using assms
proof (induction steps arbitrary: s)
  case Nil
  then show ?case by simp
next
  case (Cons step rest)
  show ?case
  proof (cases step)
    case Poll
    from stalled_Handler_loop [OF Cons.prems, of "[0..<EXTERNAL_FLASH_CH_NUM env]"]
    obtain sm where sm: "ExternalFlash_Handler env s = Inr sm"
      and store: "ExternalFlash_Instance_Store sm = ExternalFlash_Instance_Store s"
      and obs: "payload_writes (calls sm) = payload_writes (calls s)"
        "notifications (calls sm) = notifications (calls s)"
      by (auto simp add: ExternalFlash_Handler_def)
    from store Cons.prems have "stalled env i sm" by (rule stalled_cong)
    from Cons.IH [OF this] sm store obs Poll show ?thesis by auto
  next
    case (Bus_Event e)
    with Cons.IH [OF Cons.prems] stalled_event [OF Cons.prems] show ?thesis by simp
  qed
qed

subsection \<open>Initialization\<close>

lemma length_store_Initialize_instance [simp]:
  "length (ExternalFlash_Instance_Store (Initialize_instance env i s)) =
     length (ExternalFlash_Instance_Store s)"
  by (simp add: Initialize_instance_def Let_def split: option.splits)

lemma Initialize_instance_at:
  assumes "i < length (ExternalFlash_Instance_Store s)"
  shows "NVM_State (instance_of (Initialize_instance env i s) i) = EXTERNAL_FLASH_STATE_INITIALIZE \<and>
         NVM_Current_Process (instance_of (Initialize_instance env i s) i) = NVDATA_PROCESS_NONE"
  using assms
  by (simp add: Initialize_instance_def Let_def instance_of_def split: option.splits)

lemma Initialize_instance_other:
  assumes "k \<noteq> i"
  shows "instance_of (Initialize_instance env i s) k = instance_of s k"
  using assms
  by (simp add: Initialize_instance_def Let_def instance_of_def split: option.splits)

lemma length_store_fold_Initialize [simp]:
  "length (ExternalFlash_Instance_Store (fold (Initialize_instance env) js s)) =
     length (ExternalFlash_Instance_Store s)"
  by (induction js arbitrary: s) simp_all

lemma fold_Initialize_instance:
  assumes "n \<le> length (ExternalFlash_Instance_Store s)" and "k < n"
  shows "NVM_State (instance_of (fold (Initialize_instance env) [0..<n] s) k) =
           EXTERNAL_FLASH_STATE_INITIALIZE \<and>
         NVM_Current_Process (instance_of (fold (Initialize_instance env) [0..<n] s) k) =
           NVDATA_PROCESS_NONE"
  using assms
proof (induction n)
  case 0
  then show ?case by simp
next
  case (Suc n)
  let ?s = "fold (Initialize_instance env) [0..<n] s"
  show ?case
  proof (cases "k = n")
    case True
    from Suc.prems have "n < length (ExternalFlash_Instance_Store ?s)" by simp
    from Initialize_instance_at [OF this] True show ?thesis by simp
  next
    case False
    with Suc.prems have "k < n" and "n \<le> length (ExternalFlash_Instance_Store s)" by simp_all
    with Suc.IH False show ?thesis by (simp add: Initialize_instance_other)
  qed
qed

lemma Initialize_sets_INITIALIZE:
  assumes "k < EXTERNAL_FLASH_CH_NUM env"
  shows "NVM_State (instance_of (ExternalFlash__Initialize env s) k) =
           EXTERNAL_FLASH_STATE_INITIALIZE \<and>
         NVM_Current_Process (instance_of (ExternalFlash__Initialize env s) k) =
           NVDATA_PROCESS_NONE"
  unfolding ExternalFlash__Initialize_def Let_def
  using assms by (intro fold_Initialize_instance) simp_all

text \<open>Once every instance is in state \<open>INITIALIZE\<close> with process \<open>NONE\<close>, no request is
  accepted and neither a poll nor a bus event changes anything.\<close>

lemma INITIALIZE_is_never_left:
  assumes "\<forall>k < EXTERNAL_FLASH_CH_NUM env.
             NVM_State (instance_of s k) = EXTERNAL_FLASH_STATE_INITIALIZE \<and>
             NVM_Current_Process (instance_of s k) = NVDATA_PROCESS_NONE"
  shows "run env steps s = Inr s"
    and "ExternalFlash__Read env instance_id buffer data_address sz s = (False, s)"
    and "ExternalFlash__Write env instance_id buffer data_address sz s = (False, s)"
proof -
  have poll: "ExternalFlash_Handler env s = Inr s"
    unfolding ExternalFlash_Handler_def using assms by (intro Handler_loop_no_request) simp
  have event: "CommBusEventHandler env e s = s" for e
    using assms by (intro CommBusEventHandler_no_match) simp
  show "run env steps s = Inr s"
  proof (induction steps)
    case Nil
    show ?case by simp
  next
    case (Cons step rest)
    then show ?case by (cases step) (simp_all add: poll event)
  qed
  have "\<not> (unat instance_id < EXTERNAL_FLASH_CH_NUM env \<and>
        Bus_Instance_Channel (instance_of s (unat instance_id)) \<noteq> INVALID_VALUE_8 \<and>
        NVM_State (instance_of s (unat instance_id)) = EXTERNAL_FLASH_STATE_IDLE \<and>
        NVM_Current_Process (instance_of s (unat instance_id)) = NVDATA_PROCESS_NONE)"
    using assms by auto
  then show "ExternalFlash__Read env instance_id buffer data_address sz s = (False, s)"
    and "ExternalFlash__Write env instance_id buffer data_address sz s = (False, s)"
    by (rule rejected_request)+
qed

subsection \<open>Allocation and header codec\<close>

lemma GetAllocation_loop_no_match:
  assumes "\<forall>m \<in> set ms. ExternalFlash_Channel m \<noteq> client_id"
  shows "GetAllocation_loop client_id mirror_pointer nv_instance_offset instance_id ms s =
           (instance_id + length ms, s)"
  using assms by (induction ms arbitrary: instance_id) simp_all

lemma GetAllocation_no_match:
  assumes "\<forall>m \<in> set (ExternalFlash_Map env). ExternalFlash_Channel m \<noteq> client_id"
  shows "ExternalFlash__GetAllocation env client_id mirror_pointer nv_instance_offset s =
           (of_nat (EXTERNAL_FLASH_CH_NUM env), s)"
  using assms
  by (simp add: ExternalFlash__GetAllocation_def GetAllocation_loop_no_match EXTERNAL_FLASH_CH_NUM_def)

lemma header_bytes_collide:
  "header_bytes (write_header 256) = header_bytes (write_header 0)"
  "header_bytes (read_header 256) = header_bytes (read_header 0)"
  by code_simp+

lemma no_decoder:
  "\<not> (\<exists>decode. \<forall>a < 262144. decode (header_bytes (write_header a)) = a)"
  "\<not> (\<exists>decode. \<forall>a < 262144. decode (header_bytes (read_header a)) = a)"
proof -
  { fix decode :: "u8 list \<Rightarrow> u32"
    assume "\<forall>a < 262144. decode (header_bytes (write_header a)) = a"
    then have "decode (header_bytes (write_header 256)) = 256"
      and "decode (header_bytes (write_header 0)) = 0" by simp_all
    then have False by (simp add: header_bytes_collide) }
  then show "\<not> (\<exists>decode. \<forall>a < 262144. decode (header_bytes (write_header a)) = a)" by blast
  { fix decode :: "u8 list \<Rightarrow> u32"
    assume "\<forall>a < 262144. decode (header_bytes (read_header a)) = a"
    then have "decode (header_bytes (read_header 256)) = 256"
      and "decode (header_bytes (read_header 0)) = 0" by simp_all
    then have False by (simp add: header_bytes_collide) }
  then show "\<not> (\<exists>decode. \<forall>a < 262144. decode (header_bytes (read_header a)) = a)" by blast
qed

section \<open>The claims\<close>

subsection \<open>C1: the state after initialization\<close>

text \<open>
  Claim C1 says that \<open>ExternalFlash__Initialize\<close> leaves every instance in state \<open>IDLE\<close>
  with process \<open>NONE\<close>, so that a first read or write is accepted. The function stores
  \<open>EXTERNAL_FLASH_STATE_INITIALIZE\<close>, the handler does nothing in that state, and the
  requests look for \<open>IDLE\<close>. On the reference configuration: both instances are bound and in
  state \<open>INITIALIZE\<close> with process \<open>NONE\<close>, a write and a read on instance 0 return
  \<open>FALSE\<close> and change nothing, and polls and bus events change nothing either. The lemmas
  \<open>Initialize_sets_INITIALIZE\<close> and \<open>INITIALIZE_is_never_left\<close> say the same of every
  configuration.
\<close>

theorem Initialize_leaves_INITIALIZE_state:
  "map NVM_State (ExternalFlash_Instance_Store initialized_state) =
     [EXTERNAL_FLASH_STATE_INITIALIZE, EXTERNAL_FLASH_STATE_INITIALIZE] \<and>
   map NVM_Current_Process (ExternalFlash_Instance_Store initialized_state) =
     [NVDATA_PROCESS_NONE, NVDATA_PROCESS_NONE] \<and>
   map Bus_Instance_Channel (ExternalFlash_Instance_Store initialized_state) = [0, 1] \<and>
   ExternalFlash__Write example_configuration 0 0x2000 0 300 initialized_state =
     (False, initialized_state) \<and>
   ExternalFlash__Read example_configuration 0 0x2000 0 16 initialized_state =
     (False, initialized_state) \<and>
   run example_configuration [Poll, Bus_Event (completion_event 0 0), Poll] initialized_state =
     Inr initialized_state"
  by code_simp

subsection \<open>C2: the result of an accepted read\<close>

text \<open>
  Claim C2 says that an accepted \<open>ExternalFlash__Read\<close> returns \<open>TRUE\<close>. The function
  never assigns its result variable \<open>success\<close>, which \<open>ExternalFlash__Write\<close> sets after
  the same steps. On the reference configuration a read of 16 bytes on the idle instance 0
  starts the transaction, records the request, sends the read header and starts the timeout,
  and returns \<open>FALSE\<close>. The lemma \<open>Read_never_reports_success\<close> says that no call returns
  \<open>TRUE\<close>; \<open>Read_start_failure\<close> is the second half of the claim, which holds: a
  transaction that does not start leaves every instance as it was.
\<close>

theorem Read_accepted_returns_FALSE:
  "ExternalFlash__Read example_configuration 0 0x2000 0 16 idle_state =
     (False,
      idle_state
        \<lparr>ExternalFlash_Instance_Store :=
           [(idle_instance 0)
              \<lparr>NVM_State := EXTERNAL_FLASH_STATE_SEND_READ_HEADER,
               NVM_Current_Process := NVDATA_PROCESS_WAIT_WRITE,
               NVM_Buffer_Pointer := 0x2000, NVM_Buffer_Size := 16\<rparr>,
            idle_instance 1],
         ExternalFlash_Timeout_Handle := 0,
         calls := [Call_StartTransaction 0 0,
                   Call_Write 0 0 (Header_Bytes [0xD2, 0, 0, 0, 0]) 5,
                   Call_AllocateHandle, SystemTimers__SetMs 0 50]\<rparr>)"
  by code_simp

subsection \<open>C3: the second chunk of a write\<close>

text \<open>
  Claim C3 says that in state \<open>WRITE\<close>, with bytes left, the poll step goes back to
  \<open>SEND_WRITE_HEADER\<close>, so that a write of 300 bytes at address 0 makes two header and
  payload cycles (256 bytes, then 44 bytes) and one completion notification. The poll step
  stops the transaction and calls \<open>SendWriteHeader\<close>, and changes neither the state nor the
  process of the instance. For the write of 300 bytes the run ends with one payload write of
  256 bytes, the write header sent four times (once by the request, once by each poll after
  the first chunk), no notification, and instance 0 still in state \<open>WRITE\<close> with process
  \<open>WRITE\<close>: it is stalled, and by the lemma \<open>stalled_write_never_completes\<close> no
  further poll or bus event writes a payload or notifies a completion. The lemma
  \<open>WRITE_state_is_not_left\<close> says of every such poll step that it changes no instance.
\<close>

theorem write_300_sends_one_chunk_and_stalls:
  "\<not> isl write_300_run \<and>
   payload_writes (calls (projr write_300_run)) = [(0x2000, 256)] \<and>
   headers_sent (calls (projr write_300_run)) =
     [[0xD2, 0, 0, 0], [0xD2, 0, 0, 0], [0xD2, 0, 0, 0], [0xD2, 0, 0, 0]] \<and>
   notifications (calls (projr write_300_run)) = [] \<and>
   NVM_State (instance_of (projr write_300_run) 0) = EXTERNAL_FLASH_STATE_WRITE \<and>
   NVM_Current_Process (instance_of (projr write_300_run) 0) = NVDATA_PROCESS_WRITE \<and>
   stalled example_configuration 0 (projr write_300_run)"
  by code_simp

subsection \<open>C4: the size of a write chunk\<close>




subsection \<open>C5: the address in a header\<close>

text \<open>
  Claim C5 says that the split of an address into page index and byte offset, as packed into
  a header, can be inverted. Both headers divide by the number of pages (1024) and keep 8 bits
  of the remainder, so the bits 8 and 9 of the address are in neither part: the addresses 0
  and 256 give the same header. The lemma \<open>no_decoder\<close> concludes that no function
  recovers every address below \<open>256 * 1024\<close> from its header.
\<close>

theorem header_address_is_not_injective:
  "header_bytes (write_header 256) = header_bytes (write_header 0) \<and>
   header_bytes (read_header 256) = header_bytes (read_header 0) \<and>
   header_bytes (write_header 256) = [0xD2, 0, 0, 0] \<and>
   header_bytes (read_header 256) = [0xD2, 0, 0, 0, 0]"
  by code_simp

subsection \<open>C6: a rejected request changes nothing\<close>

text \<open>
  Claim C6. A read or write that is rejected (instance id out of range, channel unbound, or
  the instance not idle with process none) returns \<open>FALSE\<close> and leaves the module state as
  it was, the run-state of every instance included; no collaborator is called. In particular,
  after an accepted write, and whatever polls and bus events follow, as long as the completion
  of that instance has not been notified, a second write (or a read) on the same instance
  returns \<open>FALSE\<close> and changes nothing.
\<close>

theorem rejected_request_changes_nothing:
  "(\<not> (unat instance_id < EXTERNAL_FLASH_CH_NUM env \<and>
        Bus_Instance_Channel (instance_of s (unat instance_id)) \<noteq> INVALID_VALUE_8 \<and>
        NVM_State (instance_of s (unat instance_id)) = EXTERNAL_FLASH_STATE_IDLE \<and>
        NVM_Current_Process (instance_of s (unat instance_id)) = NVDATA_PROCESS_NONE) \<longrightarrow>
      ExternalFlash__Read env instance_id buffer data_address sz s = (False, s) \<and>
      ExternalFlash__Write env instance_id buffer data_address sz s = (False, s)) \<and>
   (length (ExternalFlash_Instance_Store s) = EXTERNAL_FLASH_CH_NUM env \<and>
    fst (ExternalFlash__Write env instance_id buffer data_address sz s) \<and>
    run env steps (snd (ExternalFlash__Write env instance_id buffer data_address sz s)) = Inr s2 \<and>
    (\<forall>n \<in> set (notifications
                (drop (length (calls (snd (ExternalFlash__Write env instance_id buffer data_address sz s))))
                   (calls s2))). snd n \<noteq> instance_id) \<longrightarrow>
      ExternalFlash__Write env instance_id buffer' data_address' sz' s2 = (False, s2) \<and>
      ExternalFlash__Read env instance_id buffer' data_address' sz' s2 = (False, s2))"
proof (intro conjI impI)
  assume r: "\<not> (unat instance_id < EXTERNAL_FLASH_CH_NUM env \<and>
        Bus_Instance_Channel (instance_of s (unat instance_id)) \<noteq> INVALID_VALUE_8 \<and>
        NVM_State (instance_of s (unat instance_id)) = EXTERNAL_FLASH_STATE_IDLE \<and>
        NVM_Current_Process (instance_of s (unat instance_id)) = NVDATA_PROCESS_NONE)"
  from r show "ExternalFlash__Read env instance_id buffer data_address sz s = (False, s)"
    by (rule rejected_request)
  from r show "ExternalFlash__Write env instance_id buffer data_address sz s = (False, s)"
    by (rule rejected_request)
next
  let ?s1 = "snd (ExternalFlash__Write env instance_id buffer data_address sz s)"
  assume a: "length (ExternalFlash_Instance_Store s) = EXTERNAL_FLASH_CH_NUM env \<and>
    fst (ExternalFlash__Write env instance_id buffer data_address sz s) \<and>
    run env steps ?s1 = Inr s2 \<and>
    (\<forall>n \<in> set (notifications (drop (length (calls ?s1)) (calls s2))). snd n \<noteq> instance_id)"
  then have "NVM_State (instance_of ?s1 (unat instance_id)) = EXTERNAL_FLASH_STATE_SEND_WRITE_HEADER"
    by (simp add: Write_accepted_state)
  then have b1: "busy ?s1 (unat instance_id)" by (simp add: busy_def)
  from a have run: "run env steps ?s1 = Inr s2" by simp
  from a have "\<forall>n \<in> set (notifications (drop (length (calls ?s1)) (calls s2))).
                 snd n \<noteq> of_nat (unat instance_id)"
    by simp
  with run b1 have "busy s2 (unat instance_id)" by (rule run_busy)
  then have r: "\<not> (unat instance_id < EXTERNAL_FLASH_CH_NUM env \<and>
        Bus_Instance_Channel (instance_of s2 (unat instance_id)) \<noteq> INVALID_VALUE_8 \<and>
        NVM_State (instance_of s2 (unat instance_id)) = EXTERNAL_FLASH_STATE_IDLE \<and>
        NVM_Current_Process (instance_of s2 (unat instance_id)) = NVDATA_PROCESS_NONE)"
    by (simp add: busy_def)
  from r show "ExternalFlash__Write env instance_id buffer' data_address' sz' s2 = (False, s2)"
    by (rule rejected_request)
  from r show "ExternalFlash__Read env instance_id buffer' data_address' sz' s2 = (False, s2)"
    by (rule rejected_request)
qed

text \<open>Claim C6 on the reference configuration: a request for instance 5, which does not exist;
  and a second request on instance 0 after its write of 300 bytes has sent the first chunk.\<close>

theorem rejected_request_changes_nothing_witness:
  "\<not> (unat (5::u8) < EXTERNAL_FLASH_CH_NUM example_configuration \<and>
        Bus_Instance_Channel (instance_of idle_state (unat (5::u8))) \<noteq> INVALID_VALUE_8 \<and>
        NVM_State (instance_of idle_state (unat (5::u8))) = EXTERNAL_FLASH_STATE_IDLE \<and>
        NVM_Current_Process (instance_of idle_state (unat (5::u8))) = NVDATA_PROCESS_NONE) \<and>
   ExternalFlash__Read example_configuration 5 0x2000 0 16 idle_state = (False, idle_state) \<and>
   ExternalFlash__Write example_configuration 5 0x2000 0 16 idle_state = (False, idle_state) \<and>
   length (ExternalFlash_Instance_Store idle_state) = EXTERNAL_FLASH_CH_NUM example_configuration \<and>
   fst (ExternalFlash__Write example_configuration 0 0x2000 0 300 idle_state) \<and>
   run example_configuration [Bus_Event (completion_event 0 0), Poll] write_issued_state =
     Inr first_chunk_state \<and>
   notifications (drop (length (calls write_issued_state)) (calls first_chunk_state)) = [] \<and>
   NVM_State (instance_of first_chunk_state 0) = EXTERNAL_FLASH_STATE_WRITE \<and>
   ExternalFlash__Write example_configuration 0 0x3000 0x40 8 first_chunk_state =
     (False, first_chunk_state) \<and>
   ExternalFlash__Read example_configuration 0 0x3000 0x40 8 first_chunk_state =
     (False, first_chunk_state)"
proof -
  have r: "\<not> (unat (5::u8) < EXTERNAL_FLASH_CH_NUM example_configuration \<and>
        Bus_Instance_Channel (instance_of idle_state (unat (5::u8))) \<noteq> INVALID_VALUE_8 \<and>
        NVM_State (instance_of idle_state (unat (5::u8))) = EXTERNAL_FLASH_STATE_IDLE \<and>
        NVM_Current_Process (instance_of idle_state (unat (5::u8))) = NVDATA_PROCESS_NONE)"
    by (simp add: EXTERNAL_FLASH_CH_NUM_def example_configuration_def)
  have a: "length (ExternalFlash_Instance_Store idle_state) =
             EXTERNAL_FLASH_CH_NUM example_configuration"
    by code_simp
  have b: "fst (ExternalFlash__Write example_configuration 0 0x2000 0 300 idle_state)"
    by code_simp
  have c: "run example_configuration [Bus_Event (completion_event 0 0), Poll] write_issued_state =
             Inr first_chunk_state"
    by code_simp
  have n: "notifications (drop (length (calls write_issued_state)) (calls first_chunk_state)) = []"
    by code_simp
  have w: "NVM_State (instance_of first_chunk_state 0) = EXTERNAL_FLASH_STATE_WRITE"
    by code_simp
  from n have e: "\<forall>n \<in> set (notifications
                     (drop (length (calls write_issued_state)) (calls first_chunk_state))).
                   snd n \<noteq> 0"
    by simp
  note first = rejected_request_changes_nothing
      [where instance_id = 5 and env = example_configuration and s = idle_state
         and buffer = "0x2000" and data_address = 0 and sz = 16]
  note second = rejected_request_changes_nothing
      [where instance_id = 0 and env = example_configuration and s = idle_state
         and buffer = "0x2000" and data_address = 0 and sz = 300
         and steps = "[Bus_Event (completion_event 0 0), Poll]" and ?s2.0 = first_chunk_state
         and buffer' = "0x3000" and data_address' = "0x40" and sz' = 8,
       folded write_issued_state_def]
  from r a b c n w e first second show ?thesis by blast
qed

subsection \<open>C7: what a completion notification carries\<close>

text \<open>
  Claim C7 says that the event value of a completion notification combines the marker of the
  process that has finished with the number of bytes actually transferred. The value is built
  from \<open>NVM_Buffer_Size\<close>, the size that was requested; the bytes that the bus has reported
  are counted in \<open>NVM_Buffer_Progress\<close>, which the notification does not read. A read of 16
  bytes for which the bus reports 10 bytes is notified with the value \<open>0x0210\<close>: the marker
  2 of the process \<open>READ\<close> and the size 16, not the 10 bytes of the progress.
\<close>

theorem completion_reports_transferred_bytes_counterexample:
  "run example_configuration
     [Bus_Event (completion_event 0 0), Poll, Bus_Event (completion_event 0 10)]
     (snd (ExternalFlash__Read example_configuration 0 0x2000 0 16 idle_state)) =
     Inr short_read_state \<and>
   \<not> isl (Handler_instance example_configuration 0 short_read_state) \<and>
   notifications (drop (length (calls short_read_state))
      (calls (projr (Handler_instance example_configuration 0 short_read_state)))) =
     [(\<lparr>Generic_Provider_Id = 7, Source_Instance_Id = 0, Event_Value = 0x0210\<rparr>, 0)] \<and>
   NVM_Current_Process (instance_of short_read_state 0) = NVDATA_PROCESS_READ \<and>
   NVM_Buffer_Size (instance_of short_read_state 0) = 16 \<and>
   NVM_Buffer_Progress (instance_of short_read_state 0) = 10 \<and>
   (0x0210 :: u16) \<noteq>
     COMBINE_BYTES (NVDATA_PROCESS_marker example_configuration
                      (NVM_Current_Process (instance_of short_read_state 0)))
       (NVM_Buffer_Progress (instance_of short_read_state 0))"
  by code_simp

text \<open>
  Claim C7 as amended. Every notification that a poll step of instance \<open>i\<close> emits carries
  the provider id of this module, the source instance id \<open>i\<close>, and the event value that
  \<open>COMBINE_BYTES\<close> packs from the marker of the process the instance holds at that moment,
  which is \<open>READ\<close> or \<open>WRITE\<close>, and the requested size \<open>NVM_Buffer_Size\<close>. The poll steps
  are the only source of notifications: by \<open>Read_notifies_nothing\<close>,
  \<open>Write_notifies_nothing\<close> and \<open>CommBusEventHandler_notifies_nothing\<close> the requests and
  the event handler emit none.
\<close>

theorem completion_notification_content:
  assumes "Handler_instance env i s = Inr s'"
    and "n \<in> set (notifications (drop (length (calls s)) (calls s')))"
  shows "n = (\<lparr>Generic_Provider_Id = GENERIC_NVDATA_EXTERNAL_FLASH env,
               Source_Instance_Id = of_nat i,
               Event_Value = COMBINE_BYTES
                               (NVDATA_PROCESS_marker env (NVM_Current_Process (instance_of s i)))
                               (NVM_Buffer_Size (instance_of s i))\<rparr>,
              of_nat i) \<and>
         (NVM_Current_Process (instance_of s i) = NVDATA_PROCESS_READ \<or>
          NVM_Current_Process (instance_of s i) = NVDATA_PROCESS_WRITE)"
proof -
  from assms(1) obtain more where more: "calls s' = calls s @ more"
    and n: "notifications more = [] \<or>
            notifications more =
              [((completion_record env i (instance_of s i))
                  \<lparr>Generic_Provider_Id := GENERIC_NVDATA_EXTERNAL_FLASH env\<rparr>, of_nat i)] \<and>
            (NVM_Current_Process (instance_of s i) = NVDATA_PROCESS_READ \<or>
             NVM_Current_Process (instance_of s i) = NVDATA_PROCESS_WRITE)"
    using Handler_instance_calls by blast
  from assms(2) more have "n \<in> set (notifications more)" by simp
  with n show ?thesis
    by (auto simp add: completion_record_def)
qed

text \<open>Claim C7 as amended, at the completion of the read of 16 bytes.\<close>

theorem completion_notification_content_witness:
  "Handler_instance example_configuration 0 short_read_state =
     Inr (projr (Handler_instance example_configuration 0 short_read_state)) \<and>
   (\<lparr>Generic_Provider_Id = 7, Source_Instance_Id = 0, Event_Value = 0x0210\<rparr>, 0) \<in>
     set (notifications (drop (length (calls short_read_state))
            (calls (projr (Handler_instance example_configuration 0 short_read_state))))) \<and>
   (\<lparr>Generic_Provider_Id = 7, Source_Instance_Id = 0, Event_Value = 0x0210\<rparr>, 0::u8) =
     (\<lparr>Generic_Provider_Id = GENERIC_NVDATA_EXTERNAL_FLASH example_configuration,
       Source_Instance_Id = of_nat 0,
       Event_Value = COMBINE_BYTES
                       (NVDATA_PROCESS_marker example_configuration
                          (NVM_Current_Process (instance_of short_read_state 0)))
                       (NVM_Buffer_Size (instance_of short_read_state 0))\<rparr>,
      of_nat 0) \<and>
   NVM_Current_Process (instance_of short_read_state 0) = NVDATA_PROCESS_READ"
proof -
  have h1: "Handler_instance example_configuration 0 short_read_state =
     Inr (projr (Handler_instance example_configuration 0 short_read_state))"
    by code_simp
  have h2: "(\<lparr>Generic_Provider_Id = 7, Source_Instance_Id = 0, Event_Value = 0x0210\<rparr>, 0) \<in>
     set (notifications (drop (length (calls short_read_state))
            (calls (projr (Handler_instance example_configuration 0 short_read_state)))))"
    by code_simp
  have p: "NVM_Current_Process (instance_of short_read_state 0) \<noteq> NVDATA_PROCESS_WRITE"
    by code_simp
  from completion_notification_content [OF h1 h2] h1 h2 p show ?thesis by blast
qed

subsection \<open>C8: a bus event that matches no waiting instance\<close>

text \<open>
  Claim C8. A bus event whose provider id and channel match no instance that holds the
  process \<open>WAIT_READ\<close> or \<open>WAIT_WRITE\<close> leaves the module state as it was: no instance
  changes (no process advances, no progress is added), the timeout handle keeps its value,
  and no call is made, so the handle is not released.
\<close>

theorem unmatched_event_is_ignored:
  assumes "\<forall>i < EXTERNAL_FLASH_CH_NUM env.
             \<not> (Generic_Provider_Id event = bus_id env i \<and>
                Bus_Instance_Channel (instance_of s i) = Source_Instance_Id event \<and>
                (NVM_Current_Process (instance_of s i) = NVDATA_PROCESS_WAIT_READ \<or>
                 NVM_Current_Process (instance_of s i) = NVDATA_PROCESS_WAIT_WRITE))"
  shows "CommBusEventHandler env event s = s"
  unfolding CommBusEventHandler_def
  using assms by (intro CommBusEventHandler_loop_no_match) simp

text \<open>Claim C8 on the reference configuration: instance 0 waits for the completion of its
  write header on channel 0, and an event arrives for channel 1, whose instance is idle.\<close>

theorem unmatched_event_is_ignored_witness:
  "\<not> (Generic_Provider_Id (completion_event 1 4) = bus_id example_configuration 0 \<and>
       Bus_Instance_Channel (instance_of write_issued_state 0) =
         Source_Instance_Id (completion_event 1 4) \<and>
       (NVM_Current_Process (instance_of write_issued_state 0) = NVDATA_PROCESS_WAIT_READ \<or>
        NVM_Current_Process (instance_of write_issued_state 0) = NVDATA_PROCESS_WAIT_WRITE)) \<and>
   \<not> (Generic_Provider_Id (completion_event 1 4) = bus_id example_configuration 1 \<and>
       Bus_Instance_Channel (instance_of write_issued_state 1) =
         Source_Instance_Id (completion_event 1 4) \<and>
       (NVM_Current_Process (instance_of write_issued_state 1) = NVDATA_PROCESS_WAIT_READ \<or>
        NVM_Current_Process (instance_of write_issued_state 1) = NVDATA_PROCESS_WAIT_WRITE)) \<and>
   EXTERNAL_FLASH_CH_NUM example_configuration = 2 \<and>
   NVM_Current_Process (instance_of write_issued_state 0) = NVDATA_PROCESS_WAIT_WRITE \<and>
   ExternalFlash_Timeout_Handle write_issued_state \<noteq> INVALID_VALUE_8 \<and>
   CommBusEventHandler example_configuration (completion_event 1 4) write_issued_state =
     write_issued_state"
proof -
  have n: "EXTERNAL_FLASH_CH_NUM example_configuration = 2"
    by (simp add: EXTERNAL_FLASH_CH_NUM_def example_configuration_def)
  have h0: "\<not> (Generic_Provider_Id (completion_event 1 4) = bus_id example_configuration 0 \<and>
       Bus_Instance_Channel (instance_of write_issued_state 0) =
         Source_Instance_Id (completion_event 1 4) \<and>
       (NVM_Current_Process (instance_of write_issued_state 0) = NVDATA_PROCESS_WAIT_READ \<or>
        NVM_Current_Process (instance_of write_issued_state 0) = NVDATA_PROCESS_WAIT_WRITE))"
    by code_simp
  have h1: "\<not> (Generic_Provider_Id (completion_event 1 4) = bus_id example_configuration 1 \<and>
       Bus_Instance_Channel (instance_of write_issued_state 1) =
         Source_Instance_Id (completion_event 1 4) \<and>
       (NVM_Current_Process (instance_of write_issued_state 1) = NVDATA_PROCESS_WAIT_READ \<or>
        NVM_Current_Process (instance_of write_issued_state 1) = NVDATA_PROCESS_WAIT_WRITE))"
    by code_simp
  have w: "NVM_Current_Process (instance_of write_issued_state 0) = NVDATA_PROCESS_WAIT_WRITE"
    by code_simp
  have t: "ExternalFlash_Timeout_Handle write_issued_state \<noteq> INVALID_VALUE_8"
    by code_simp
  have "\<forall>i < EXTERNAL_FLASH_CH_NUM example_configuration.
          \<not> (Generic_Provider_Id (completion_event 1 4) = bus_id example_configuration i \<and>
             Bus_Instance_Channel (instance_of write_issued_state i) =
               Source_Instance_Id (completion_event 1 4) \<and>
             (NVM_Current_Process (instance_of write_issued_state i) = NVDATA_PROCESS_WAIT_READ \<or>
              NVM_Current_Process (instance_of write_issued_state i) = NVDATA_PROCESS_WAIT_WRITE))"
  proof (intro allI impI)
    fix i assume "i < EXTERNAL_FLASH_CH_NUM example_configuration"
    with n have "i = 0 \<or> i = 1" by auto
    with h0 h1
    show "\<not> (Generic_Provider_Id (completion_event 1 4) = bus_id example_configuration i \<and>
             Bus_Instance_Channel (instance_of write_issued_state i) =
               Source_Instance_Id (completion_event 1 4) \<and>
             (NVM_Current_Process (instance_of write_issued_state i) = NVDATA_PROCESS_WAIT_READ \<or>
              NVM_Current_Process (instance_of write_issued_state i) = NVDATA_PROCESS_WAIT_WRITE))"
      by blast
  qed
  then have "CommBusEventHandler example_configuration (completion_event 1 4) write_issued_state =
     write_issued_state"
    by (rule unmatched_event_is_ignored)
  with n h0 h1 w t show ?thesis by blast
qed

subsection \<open>C9: allocation for an unknown client\<close>

text \<open>
  Claim C9 says that \<open>ExternalFlash__GetAllocation\<close> returns the invalid sentinel for a
  client id that matches no entry of the configuration map, and changes no instance. The
  result variable starts as \<open>INVALID_VALUE_8\<close>, but it is also the counter of the loop: when
  no entry matches it holds the number of entries. On the reference configuration, with its
  two entries, the client id 5 gets the result 2, which is not \<open>INVALID_VALUE_8\<close>; the state
  is unchanged, as the claim says. The lemma \<open>GetAllocation_no_match\<close> says it of every
  configuration.
\<close>

theorem GetAllocation_without_match_returns_count:
  "ExternalFlash__GetAllocation example_configuration 5 0x3000 0x40 idle_state = (2, idle_state) \<and>
   (2::u8) \<noteq> INVALID_VALUE_8"
  by code_simp

subsection \<open>C10: the opcode of a write header\<close>

text \<open>
  Claim C10. Every header that \<open>SendWriteHeader\<close> hands to the bus carries the opcode
  \<open>0xD2\<close>, the read-memory command: the write-memory opcode \<open>0x58\<close> that the function
  assigns first is overwritten before the header is sent.
\<close>

theorem write_header_carries_read_opcode:
  assumes "h \<in> set (headers_sent (drop (length (calls s)) (calls (snd (SendWriteHeader env instance_id s)))))"
  shows "hd h = 0xD2 \<and> hd h = EXTERNAL_FLASH_CMD_READ_MEMORY \<and> hd h \<noteq> EXTERNAL_FLASH_CMD_WRITE_MEMORY"
proof -
  obtain more where more: "calls (snd (SendWriteHeader env instance_id s)) = calls s @ more"
    and sent: "headers_sent more =
       (case Write (bus env instance_id) of
          None \<Rightarrow> []
        | Some write_handler \<Rightarrow>
            [header_bytes (write_header (NVM_Target_Address (instance_of s instance_id)
                                          + ucast (NVM_Buffer_Progress (instance_of s instance_id))))])"
    using calls_SendWriteHeader by blast
  from assms more have "h \<in> set (headers_sent more)" by simp
  with sent have "hd h = EXTERNAL_FLASH_CMD_READ_MEMORY"
    by (auto simp add: write_header_opcode split: option.splits)
  then show ?thesis
    by (simp add: EXTERNAL_FLASH_CMD_READ_MEMORY_def EXTERNAL_FLASH_CMD_WRITE_MEMORY_def)
qed

text \<open>Claim C10 at the pending write at address \<open>0x1F0\<close>.\<close>

theorem write_header_carries_read_opcode_witness:
  "[0xD2, 0, 0, 0xF0] \<in>
     set (headers_sent (drop (length (calls write_pending_state))
            (calls (snd (SendWriteHeader example_configuration 0 write_pending_state))))) \<and>
   hd [0xD2, 0, 0, 0xF0] = (0xD2::u8) \<and>
   hd [0xD2, 0, 0, 0xF0] = EXTERNAL_FLASH_CMD_READ_MEMORY \<and>
   hd [0xD2, 0, 0, 0xF0] \<noteq> EXTERNAL_FLASH_CMD_WRITE_MEMORY"
proof -
  have h: "[0xD2, 0, 0, 0xF0] \<in>
     set (headers_sent (drop (length (calls write_pending_state))
            (calls (snd (SendWriteHeader example_configuration 0 write_pending_state)))))"
    by code_simp
  from write_header_carries_read_opcode [OF h] h show ?thesis by blast
qed

end
